theory Spec2Isabelle
  imports Complex_Main "HOL-Library.Sublist" "HOL-Library.Word"
begin

section \<open>Python strings\<close>

text \<open>
  A Python \<open>str\<close> is a sequence of Unicode code points, and \<open>len\<close>, slicing and the
  \<open>re\<close> module all count code points. A string is therefore modelled as the list of its
  code points; \<open>py\<close> turns an ASCII literal into such a list. A \<open>bytes\<close> value is the list
  of its byte values.
\<close>

type_synonym pystr = "nat list"
type_synonym pybytes = "nat list"

definition py :: "string \<Rightarrow> pystr" where
  "py s = map of_char s"

text \<open>
  \<open>str.isspace\<close> on one code point; the \<open>re\<close> module's \<open>\s\<close> on a \<open>str\<close> pattern and
  \<open>str.strip()\<close> use the same set.
\<close>

definition isspace :: "nat \<Rightarrow> bool" where
  "isspace c \<longleftrightarrow>
     (9 \<le> c \<and> c \<le> 13) \<or> (28 \<le> c \<and> c \<le> 32) \<or> c = 133 \<or> c = 160 \<or> c = 5760 \<or>
     (8192 \<le> c \<and> c \<le> 8202) \<or> c = 8232 \<or> c = 8233 \<or> c = 8239 \<or> c = 8287 \<or> c = 12288"

definition strip :: "pystr \<Rightarrow> pystr" where
  "strip s = rev (dropWhile isspace (rev (dropWhile isspace s)))"

text \<open>\<open>s.split("\n")\<close> and \<open>"\n".join(ls)\<close>; the newline is code point 10.\<close>

fun split_nl :: "pystr \<Rightarrow> pystr list" where
  "split_nl [] = [[]]"
| "split_nl (c # cs) =
     (if c = 10 then [] # split_nl cs
      else (case split_nl cs of [] \<Rightarrow> [[c]] | l # ls \<Rightarrow> (c # l) # ls))"

fun join_nl :: "pystr list \<Rightarrow> pystr" where
  "join_nl [] = []"
| "join_nl [l] = l"
| "join_nl (l # ls) = l @ 10 # join_nl ls"

section \<open>Regular expressions of the source\<close>

text \<open>
  \<open>find_sub d s\<close> cuts \<open>s\<close> at the first occurrence of \<open>d\<close>: the text before it and the
  text after it.
\<close>

fun find_sub :: "pystr \<Rightarrow> pystr \<Rightarrow> (pystr \<times> pystr) option" where
  "find_sub d [] = (if d = [] then Some ([], []) else None)"
| "find_sub d (c # cs) =
     (if prefix d (c # cs) then Some ([], drop (length d) (c # cs))
      else map_option (\<lambda>(a, b). (c # a, b)) (find_sub d cs))"

text \<open>
  \<open>re.sub(pattern, repl, s)\<close> scans \<open>s\<close> from the left: where the pattern matches, the
  replacement is written and the scan goes on behind the match; elsewhere the character is
  copied. The pattern is given as a matcher that, for the text at the current position,
  returns the replacement and the text behind the match. No pattern of the source matches
  the empty string, so the scan never has to step over an empty match.
\<close>

fun re_sub :: "(pystr \<Rightarrow> (pystr \<times> pystr) option) \<Rightarrow> pystr \<Rightarrow> pystr" where
  "re_sub m [] = []"
| "re_sub m (c # cs) =
     (case m (c # cs) of
        None \<Rightarrow> c # re_sub m cs
      | Some (out, rest) \<Rightarrow>
          if length rest \<le> length cs then out @ re_sub m rest else c # re_sub m cs)"

text \<open>
  Patterns \<open>D(.+?)D\<close> with a literal delimiter \<open>D\<close> and replacement \<open>l\1r\<close>: after the
  opening delimiter the lazy group takes one character and then as few as possible, so it
  ends at the first later occurrence of the delimiter. The source applies these patterns to
  single lines, where \<open>.\<close> matches every character.
\<close>

definition delimited :: "pystr \<Rightarrow> pystr \<Rightarrow> pystr \<Rightarrow> pystr \<Rightarrow> (pystr \<times> pystr) option" where
  "delimited d l r s =
     (if prefix d s then
        (case drop (length d) s of
           [] \<Rightarrow> None
         | x # xs \<Rightarrow>
             (case find_sub d xs of
                None \<Rightarrow> None
              | Some (g, rest) \<Rightarrow> Some (l @ x # g @ r, rest)))
      else None)"

text \<open>\<open>\*\*\*(.+?)\*\*\*\<close> with replacement \<open>*_\1_*\<close>.\<close>

definition bold_italic :: "pystr \<Rightarrow> (pystr \<times> pystr) option" where
  "bold_italic = delimited (py ''***'') (py ''*_'') (py ''_*'')"

text \<open>\<open>\*\*(.+?)\*\*\<close> with replacement \<open>*\1*\<close>.\<close>

definition bold :: "pystr \<Rightarrow> (pystr \<times> pystr) option" where
  "bold = delimited (py ''**'') (py ''*'') (py ''*'')"

text \<open>\<open>~~(.+?)~~\<close> with replacement \<open>~\1~\<close>.\<close>

definition strike :: "pystr \<Rightarrow> (pystr \<times> pystr) option" where
  "strike = delimited (py ''~~'') (py ''~'') (py ''~'')"

text \<open>
  The tail \<open>[...]\](([^)]+)\)\<close> shared by the link and image patterns, started behind the
  opening bracket: the label is the longest run without \<open>]\<close> (93), then \<open>](\<close> (93, 40),
  then the longest non-empty run without \<open>)\<close> (41), then \<open>)\<close>. A shorter run would be
  followed by a character of the run, so there is nothing to backtrack to. The replacement
  is \<open><\2|\1>\<close>.
\<close>

definition bracket_paren :: "bool \<Rightarrow> pystr \<Rightarrow> (pystr \<times> pystr) option" where
  "bracket_paren empty_label s =
     (let g1 = takeWhile (\<lambda>c. c \<noteq> 93) s; r1 = dropWhile (\<lambda>c. c \<noteq> 93) s in
      if g1 = [] \<and> \<not> empty_label then None
      else if \<not> prefix [93, 40] r1 then None
      else
        (let r2 = drop 2 r1; g2 = takeWhile (\<lambda>c. c \<noteq> 41) r2; r3 = dropWhile (\<lambda>c. c \<noteq> 41) r2 in
         if g2 = [] then None
         else (case r3 of [] \<Rightarrow> None | _ # rest \<Rightarrow> Some ([60] @ g2 @ [124] @ g1 @ [62], rest))))"

text \<open>\<open>\[([^\]]+)\]\(([^)]+)\)\<close>: an opening bracket (91) and a non-empty label.\<close>

definition link :: "pystr \<Rightarrow> (pystr \<times> pystr) option" where
  "link s = (case s of [] \<Rightarrow> None | c # cs \<Rightarrow> if c = 91 then bracket_paren False cs else None)"

text \<open>\<open>!\[([^\]]*)\]\(([^)]+)\)\<close>: \<open>![\<close> (33, 91) and a label that may be empty.\<close>

definition image :: "pystr \<Rightarrow> (pystr \<times> pystr) option" where
  "image s = (if prefix [33, 91] s then bracket_paren True (drop 2 s) else None)"

text \<open>
  The tail \<open>\s+(.+)$\<close> of the heading and bullet patterns, on the rest of a line; the
  result is the group. \<open>\s+\<close> first takes the whole run of white space; if nothing is left
  for \<open>.+\<close> it gives back its last character, which needs a run of two.
\<close>

definition ws_then_text :: "pystr \<Rightarrow> pystr option" where
  "ws_then_text s =
     (let w = takeWhile isspace s; r = dropWhile isspace s in
      if w = [] then None
      else if r \<noteq> [] then Some r
      else if 2 \<le> length w then Some [last w]
      else None)"

text \<open>
  \<open>re.match(r"^(#{1,6})\s+(.+)$", line)\<close>, returning group 2: one to six \<open>#\<close> (35); a
  seventh \<open>#\<close> is not white space, so a longer run does not match.
\<close>

definition header_match :: "pystr \<Rightarrow> pystr option" where
  "header_match line =
     (let n = length (takeWhile (\<lambda>c. c = 35) line) in
      if 1 \<le> n \<and> n \<le> 6 then ws_then_text (drop n line) else None)"

text \<open>\<open>re.match(r"^---+$", s)\<close>: three or more hyphens (45) and nothing else.\<close>

definition rule_match :: "pystr \<Rightarrow> bool" where
  "rule_match s \<longleftrightarrow> 3 \<le> length s \<and> list_all (\<lambda>c. c = 45) s"

text \<open>
  \<open>re.match(r"^(\s*)\*\s+(.+)$", line)\<close>, returning groups 1 and 2: the indentation is
  the whole leading white space, then \<open>*\<close> (42).
\<close>

definition bullet_match :: "pystr \<Rightarrow> (pystr \<times> pystr) option" where
  "bullet_match line =
     (let ind = takeWhile isspace line in
      case dropWhile isspace line of
        [] \<Rightarrow> None
      | c # cs \<Rightarrow> if c = 42 then map_option (\<lambda>g. (ind, g)) (ws_then_text cs) else None)"

section \<open>Markdown to Slack conversion\<close>

text \<open>
  \<open>re.split(r"(```[\s\S]*?```)", text)\<close>. The pattern matches from the first triple
  backtick to the next one behind it; when there is no closing one, nothing matches any
  more. With the capturing group, the result alternates text outside (even indices) and
  the matches themselves (odd indices).
\<close>

definition fence :: pystr where
  "fence = [96, 96, 96]"

function re_split_fenced :: "pystr \<Rightarrow> pystr list" where
  "re_split_fenced text =
     (case find_sub fence text of
        None \<Rightarrow> [text]
      | Some (pre, rest) \<Rightarrow>
          (case find_sub fence rest of
             None \<Rightarrow> [text]
           | Some (body, post) \<Rightarrow> pre # (fence @ body @ fence) # re_split_fenced post))"
  by pat_completeness auto

termination re_split_fenced
proof (relation "measure length")
  show "wf (measure length)" by simp
next
  fix t :: pystr and x2 pre rest y2 body post
  assume a: "find_sub fence t = Some x2" "(pre, rest) = x2"
    "find_sub fence rest = Some y2" "(body, post) = y2"
  have len: "length b \<le> length s - length d" if "find_sub d s = Some (a, b)" for d s a b
    using that
  proof (induction s arbitrary: a b)
    case Nil
    then show ?case by (simp split: if_splits)
  next
    case (Cons c cs)
    show ?case
    proof (cases "prefix d (c # cs)")
      case True
      with Cons.prems show ?thesis by auto
    next
      case False
      with Cons.prems obtain a' where "find_sub d cs = Some (a', b)"
        by (auto split: prod.splits)
      from Cons.IH [OF this] show ?thesis by simp
    qed
  qed
  from a have "length rest \<le> length t - length fence" "length post \<le> length rest - length fence"
    by (auto dest: len)
  moreover have "t \<noteq> []"
    using a(1) by (auto simp: fence_def)
  ultimately show "(post, t) \<in> measure length"
    by (cases t) (auto simp: fence_def)
qed

declare re_split_fenced.simps [simp del]

text \<open>The loop body for one line outside a fenced block; the bullet glyph is U+2022.\<close>

definition convert_line :: "pystr \<Rightarrow> pystr" where
  "convert_line line =
     (case header_match line of
        Some title \<Rightarrow> [42] @ title @ [42]
      | None \<Rightarrow>
          if rule_match (strip line) then []
          else
            (let l1 = re_sub bold_italic line;
                 l2 = re_sub bold l1;
                 l3 = re_sub link l2;
                 l4 = re_sub image l3;
                 l5 = re_sub strike l4
             in case bullet_match l5 of
                  Some (ind, item) \<Rightarrow> ind @ [8226, 32] @ item
                | None \<Rightarrow> l5))"

definition convert_part :: "pystr \<Rightarrow> pystr" where
  "convert_part part = join_nl (map convert_line (split_nl part))"

definition markdown_to_slack :: "pystr \<Rightarrow> pystr" where
  "markdown_to_slack text =
     concat (map (\<lambda>(i, part). if i mod 2 = 1 then part else convert_part part)
               (enumerate 0 (re_split_fenced text)))"

section \<open>Thread context\<close>

text \<open>
  A message of a Slack thread, as far as the daemon reads it: the fields \<open>text\<close>,
  \<open>bot_id\<close> and \<open>subtype\<close>, each a string when present (\<open>None\<close> is an absent key).
  \<open>msg.get("text", "")\<close> reads an absent text as the empty string, and \<open>msg.get(k)\<close>
  is truthy for a present, non-empty string.
\<close>

record message =
  msg_text :: "pystr option"
  msg_bot_id :: "pystr option"
  msg_subtype :: "pystr option"

definition truthy_str :: "pystr option \<Rightarrow> bool" where
  "truthy_str v = (case v of None \<Rightarrow> False | Some s \<Rightarrow> s \<noteq> [])"

text \<open>
  \<open><@[A-Z0-9]+>\s*\<close> with the empty replacement: \<open><@\<close> (60, 64), the longest
  non-empty run of ASCII capitals and digits, \<open>>\<close> (62), and all white space behind it.
\<close>

definition upper_or_digit :: "nat \<Rightarrow> bool" where
  "upper_or_digit c \<longleftrightarrow> (65 \<le> c \<and> c \<le> 90) \<or> (48 \<le> c \<and> c \<le> 57)"

definition mention :: "pystr \<Rightarrow> (pystr \<times> pystr) option" where
  "mention s =
     (if prefix [60, 64] s then
        (let r = drop 2 s in
         if takeWhile upper_or_digit r = [] then None
         else
           (case dropWhile upper_or_digit r of
              [] \<Rightarrow> None
            | c # r' \<Rightarrow> if c = 62 then Some ([], dropWhile isspace r') else None))
      else None)"

definition strip_mentions :: "pystr \<Rightarrow> pystr" where
  "strip_mentions s = strip (re_sub mention s)"

text \<open>\<open>msg.get("text", "")\<close>\<close>

definition message_text :: "message \<Rightarrow> pystr" where
  "message_text msg = (case msg_text msg of None \<Rightarrow> [] | Some s \<Rightarrow> s)"

text \<open>The line one earlier message adds to the context, if it adds one.\<close>

definition context_line :: "message \<Rightarrow> pystr option" where
  "context_line msg =
     (let t = strip_mentions (message_text msg) in
      if t = [] then None
      else if truthy_str (msg_bot_id msg) then Some (py ''Bot: '' @ t)
      else if \<not> truthy_str (msg_subtype msg) then Some (py ''User: '' @ t)
      else None)"

definition context_header :: pystr where
  "context_header = py ''Previous conversation in this thread:''"

definition format_thread_context :: "message list \<Rightarrow> pystr" where
  "format_thread_context messages =
     (if length messages \<le> 1 then []
      else
        (let lines = context_header # List.map_filter context_line (butlast messages) in
         if length lines \<le> 1 then [] else join_nl lines @ [10]))"

section \<open>Task processing in the daemon\<close>

text \<open>
  A task as \<open>process_task\<close> receives it when every field is a string, as the worker
  writes them: the fields it reads with \<open>task.get(key, "")\<close>, and the two fields \<open>_sha\<close>
  and \<open>_path\<close> that \<open>read_task\<close> attaches.
\<close>

record task =
  task_id :: pystr
  task_prompt :: pystr
  task_channel_id :: pystr
  task_response_url :: pystr
  task_thread_ts :: pystr
  task_sha :: pystr
  task_path :: pystr

text \<open>
  The task record that the worker writes to the queue, before \<open>json.dumps\<close> serialises
  it.
\<close>

record queued_task =
  q_task_id :: pystr
  q_prompt :: pystr
  q_requested_by :: pystr
  q_channel_id :: pystr
  q_thread_ts :: pystr
  q_response_url :: pystr
  q_created_at :: pystr

text \<open>
  Calls that leave the process, in the order in which they are made. Both the daemon and the
  worker post to a response URL with the same payload, and to \<open>chat.postMessage\<close> with
  channel, text and thread timestamp (empty when the key is left out). The other calls are
  the GET of \<open>conversations.replies\<close>, the Claude Code subprocess with its prompt, the
  DELETE of a task file with its SHA, the git commands that synchronise the workspace,
  and \<open>github.write_file\<close> with path, content and commit message.
\<close>

datatype effect =
    RespondViaUrl pystr pystr
  | ChatPostMessage pystr pystr pystr
  | ConversationsReplies pystr pystr
  | RunClaude pystr
  | DeleteTask pystr pystr
  | SyncWorkspace
  | WriteFile pystr queued_task pystr

text \<open>How the Claude Code subprocess ends, as \<open>run_claude\<close> tells the cases apart.\<close>

datatype proc_result =
    Completed int pystr pystr
  | TimeoutExpired
  | FileNotFoundError

text \<open>
  What the daemon takes from outside: its configuration, the reply of Slack's
  \<open>conversations.replies\<close> (\<open>None\<close> when the reply is not ok) and the subprocess.
\<close>

record daemon_env =
  slack_bot_token :: pystr
  claude_timeout :: int
  conversations_replies :: "pystr \<Rightarrow> pystr \<Rightarrow> message list option"
  claude_process :: "pystr \<Rightarrow> proc_result"

text \<open>Decimal digits of an integer, as an f-string prints it.\<close>

function digits10 :: "nat \<Rightarrow> pystr" where
  "digits10 n = (if n < 10 then [48 + n] else digits10 (n div 10) @ [48 + n mod 10])"
  by pat_completeness auto
termination
  by (relation "measure id") auto

declare digits10.simps [simp del]

definition str_int :: "int \<Rightarrow> pystr" where
  "str_int i = (if i < 0 then 45 # digits10 (nat (- i)) else digits10 (nat i))"

definition prompt_prefix :: pystr where
  "prompt_prefix =
     py ''You are responding to a Slack command. Keep your response concise '' @ [8212] @
     py '' it will be posted to a Slack channel. Format for Slack mrkdwn: use *bold* (single asterisk), _italic_, '' @
     [96] @ py ''code'' @ [96] @
     py '', and <url|text> for links. No markdown headings.'' @ [10, 10] @ py ''User request: ''"

definition run_claude :: "daemon_env \<Rightarrow> pystr \<Rightarrow> pystr \<Rightarrow> effect list \<times> pystr" where
  "run_claude env prompt context =
     (let full_prompt =
            (if context \<noteq> [] then prompt_prefix @ context @ [10] @ py ''Latest request: '' @ prompt
             else prompt_prefix @ prompt)
      in ([RunClaude full_prompt],
          case claude_process env full_prompt of
            Completed returncode out err \<Rightarrow>
              if returncode = 0 then strip out
              else py ''Error: Claude Code returned exit code '' @ str_int returncode @ [10] @ take 500 err
          | TimeoutExpired \<Rightarrow>
              py ''Error: Claude Code timed out ('' @ str_int (claude_timeout env) @ py ''s limit)''
          | FileNotFoundError \<Rightarrow>
              py ''Error: Claude Code CLI not found. Is it installed and in PATH?''))"

definition post_to_slack :: "daemon_env \<Rightarrow> pystr \<Rightarrow> pystr \<Rightarrow> pystr \<Rightarrow> effect list" where
  "post_to_slack env channel txt thread =
     (if slack_bot_token env = [] then [] else [ChatPostMessage channel txt thread])"

definition respond_via_url :: "pystr \<Rightarrow> pystr \<Rightarrow> effect list" where
  "respond_via_url url txt = [RespondViaUrl url txt]"

definition fetch_thread_history :: "daemon_env \<Rightarrow> pystr \<Rightarrow> pystr \<Rightarrow> effect list \<times> message list" where
  "fetch_thread_history env channel thread =
     (if slack_bot_token env = [] then ([], [])
      else ([ConversationsReplies channel thread],
            case conversations_replies env channel thread of None \<Rightarrow> [] | Some messages \<Rightarrow> messages))"

text \<open>The truncation step of \<open>process_task\<close>: \<open>output[:3900] + "\n...(truncated)"\<close>.\<close>

definition truncate_output :: "pystr \<Rightarrow> pystr" where
  "truncate_output output =
     (if length output > 3900 then take 3900 output @ [10] @ py ''...(truncated)'' else output)"

text \<open>
  \<open>process_task\<close>, as the list of the outside calls it makes when none of them raises. An
  exception in one of the calls ends the task there, so what a run has done is always a
  prefix of this list.
\<close>

definition process_task :: "daemon_env \<Rightarrow> task \<Rightarrow> effect list" where
  "process_task env task =
     (let ack_text = py ''Processing: '' @ [96] @ take 80 (task_prompt task) @ [96] @ py ''...'';
          ack =
            (if task_response_url task \<noteq> [] then respond_via_url (task_response_url task) ack_text
             else if task_channel_id task \<noteq> [] then
               post_to_slack env (task_channel_id task) ack_text (task_thread_ts task)
             else []);
          (fetch, context) =
            (if task_thread_ts task \<noteq> [] \<and> task_channel_id task \<noteq> [] then
               (let (eff, messages) = fetch_thread_history env (task_channel_id task) (task_thread_ts task)
                in (eff, format_thread_context messages))
             else ([], []));
          (run, raw) = run_claude env (task_prompt task) context;
          output = truncate_output (markdown_to_slack raw);
          result =
            (if task_response_url task \<noteq> [] then respond_via_url (task_response_url task) output
             else if task_channel_id task \<noteq> [] then
               post_to_slack env (task_channel_id task) output (task_thread_ts task)
             else [])
      in ack @ fetch @ run @ result @ [DeleteTask (task_path task) (task_sha task), SyncWorkspace])"

section \<open>Values and library functions the worker and the daemon use\<close>

text \<open>Exceptions that leave a function of the source.\<close>

datatype pyerror =
    UnicodeDecodeError
  | UnicodeEncodeError
  | JSONDecodeError
  | TypeError
  | AttributeError
  | KeyError

text \<open>
  A decoded JSON value; an object is the list of its items. Truthiness is Python's.
\<close>

datatype json =
    JNull
  | JBool bool
  | JNum real
  | JStr pystr
  | JArr "json list"
  | JObj "(pystr \<times> json) list"

definition truthy :: "json \<Rightarrow> bool" where
  "truthy v =
     (case v of
        JNull \<Rightarrow> False
      | JBool b \<Rightarrow> b
      | JNum x \<Rightarrow> x \<noteq> 0
      | JStr s \<Rightarrow> s \<noteq> []
      | JArr xs \<Rightarrow> xs \<noteq> []
      | JObj kvs \<Rightarrow> kvs \<noteq> [])"

text \<open>\<open>d.get(key)\<close> on a \<open>dict\<close>; \<open>None\<close> is Python's \<open>None\<close> for an absent key.\<close>

definition dict_get :: "(pystr \<times> json) list \<Rightarrow> string \<Rightarrow> json option" where
  "dict_get d k = map_of d (py k)"

definition truthy_opt :: "json option \<Rightarrow> bool" where
  "truthy_opt v = (case v of None \<Rightarrow> False | Some x \<Rightarrow> truthy x)"

text \<open>\<open>d.get(key, default)\<close> with a string as default.\<close>

definition get_default :: "(pystr \<times> json) list \<Rightarrow> string \<Rightarrow> pystr \<Rightarrow> json" where
  "get_default d k dflt = (case dict_get d k of None \<Rightarrow> JStr dflt | Some v \<Rightarrow> v)"

text \<open>\<open>d[key] = value\<close> on a \<open>dict\<close>: the value of a present key is replaced, a new key comes last.\<close>

fun dict_set :: "(pystr \<times> json) list \<Rightarrow> pystr \<Rightarrow> json \<Rightarrow> (pystr \<times> json) list" where
  "dict_set [] k v = [(k, v)]"
| "dict_set ((k', v') # d) k v = (if k' = k then (k, v) # d else (k', v') # dict_set d k v)"

text \<open>
  A Python \<open>float\<close>: a number, taken as a real (rounding is outside the model), one of
  the two infinities, or NaN. \<open>far_from now x\<close> is the test \<open>abs(now - x) > 300\<close> for
  the current time \<open>now\<close>: true for the infinities and false for NaN, with which every
  comparison is false.
\<close>

datatype pyfloat =
    FloatNum real
  | FloatInf
  | FloatNegInf
  | FloatNaN

definition far_from :: "real \<Rightarrow> pyfloat \<Rightarrow> bool" where
  "far_from now x =
     (case x of
        FloatNum t \<Rightarrow> \<bar>now - t\<bar> > 300
      | FloatInf \<Rightarrow> True
      | FloatNegInf \<Rightarrow> True
      | FloatNaN \<Rightarrow> False)"

text \<open>
  Functions of the Python library that the repository calls and does not define. They are
  parameters of the model: \<open>str.lower\<close>, \<open>float\<close> on a string (\<open>None\<close> for
  \<open>ValueError\<close>), HMAC-SHA256 of a message under a key (the raw digest), \<open>json.loads\<close>
  on a string (\<open>None\<close> for \<open>JSONDecodeError\<close>), \<open>json.loads\<close> on bytes (\<open>None\<close>
  when it raises, and then the exception it raises: \<open>UnicodeDecodeError\<close> for bytes it
  cannot decode, \<open>JSONDecodeError\<close> for text that is not JSON), and
  \<open>urllib.parse.parse_qs\<close>.
\<close>

record pylib =
  str_lower :: "pystr \<Rightarrow> pystr"
  py_float :: "pystr \<Rightarrow> pyfloat option"
  hmac_sha256 :: "pybytes \<Rightarrow> pybytes \<Rightarrow> 8 word list"
  json_loads :: "pystr \<Rightarrow> json option"
  json_loads_bytes :: "pybytes \<Rightarrow> json option"
  json_loads_bytes_error :: "pybytes \<Rightarrow> pyerror"
  parse_qs :: "pystr \<Rightarrow> (pystr \<times> pystr list) list"

text \<open>
  \<open>bytes.decode("utf-8")\<close> and \<open>str.encode()\<close>, both strict: \<open>None\<close> stands for
  \<open>UnicodeDecodeError\<close> and \<open>UnicodeEncodeError\<close>.
\<close>

definition cont :: "nat \<Rightarrow> bool" where
  "cont b \<longleftrightarrow> 128 \<le> b \<and> b \<le> 191"

fun utf8_decode :: "pybytes \<Rightarrow> pystr option" where
  "utf8_decode [] = Some []"
| "utf8_decode (b0 # bs) =
     (if b0 < 128 then map_option ((#) b0) (utf8_decode bs)
      else if 194 \<le> b0 \<and> b0 \<le> 223 then
        (case bs of
           b1 # r \<Rightarrow>
             if cont b1 then map_option ((#) ((b0 - 192) * 64 + (b1 - 128))) (utf8_decode r)
             else None
         | _ \<Rightarrow> None)
      else if 224 \<le> b0 \<and> b0 \<le> 239 then
        (case bs of
           b1 # b2 # r \<Rightarrow>
             if (if b0 = 224 then 160 else 128) \<le> b1 \<and> b1 \<le> (if b0 = 237 then 159 else 191) \<and> cont b2
             then map_option ((#) ((b0 - 224) * 4096 + (b1 - 128) * 64 + (b2 - 128))) (utf8_decode r)
             else None
         | _ \<Rightarrow> None)
      else if 240 \<le> b0 \<and> b0 \<le> 244 then
        (case bs of
           b1 # b2 # b3 # r \<Rightarrow>
             if (if b0 = 240 then 144 else 128) \<le> b1 \<and> b1 \<le> (if b0 = 244 then 143 else 191) \<and>
                cont b2 \<and> cont b3
             then map_option
                    ((#) ((b0 - 240) * 262144 + (b1 - 128) * 4096 + (b2 - 128) * 64 + (b3 - 128)))
                    (utf8_decode r)
             else None
         | _ \<Rightarrow> None)
      else None)"

definition encode_char :: "nat \<Rightarrow> pybytes option" where
  "encode_char c =
     (if c < 128 then Some [c]
      else if c < 2048 then Some [192 + c div 64, 128 + c mod 64]
      else if 55296 \<le> c \<and> c \<le> 57343 then None
      else if c < 65536 then Some [224 + c div 4096, 128 + c div 64 mod 64, 128 + c mod 64]
      else if c < 1114112 then
        Some [240 + c div 262144, 128 + c div 4096 mod 64, 128 + c div 64 mod 64, 128 + c mod 64]
      else None)"

fun utf8_encode :: "pystr \<Rightarrow> pybytes option" where
  "utf8_encode [] = Some []"
| "utf8_encode (c # cs) =
     (case encode_char c of
        None \<Rightarrow> None
      | Some bs \<Rightarrow> map_option ((@) bs) (utf8_encode cs))"

text \<open>\<open>hexdigest()\<close>: two lower-case hexadecimal digits for each byte.\<close>

definition hexdigit :: "nat \<Rightarrow> nat" where
  "hexdigit n = (if n < 10 then 48 + n else 87 + n)"

definition hexdigest :: "8 word list \<Rightarrow> pystr" where
  "hexdigest ws = concat (map (\<lambda>w. [hexdigit (unat w div 16), hexdigit (unat w mod 16)]) ws)"

text \<open>
  \<open>hmac.compare_digest\<close> on two strings: it raises \<open>TypeError\<close> unless both are ASCII.
\<close>

definition compare_digest :: "pystr \<Rightarrow> pystr \<Rightarrow> pyerror + bool" where
  "compare_digest a b =
     (if list_all (\<lambda>c. c < 128) a \<and> list_all (\<lambda>c. c < 128) b then Inr (a = b) else Inl TypeError)"

section \<open>Signature verification in the worker\<close>

text \<open>
  \<open>verify_slack_signature\<close>, with the module constant \<open>SLACK_SIGNING_SECRET\<close> and the
  value of \<open>time.time()\<close> as arguments. A timestamp that \<open>float\<close> rejects is caught in the
  source and gives \<open>False\<close>; one that it reads as NaN passes the test of the age and
  goes on to the comparison of the signatures; the decoding of the body and the encodings
  are not guarded.
\<close>

definition verify_slack_signature ::
  "pylib \<Rightarrow> pystr \<Rightarrow> real \<Rightarrow> pybytes \<Rightarrow> pystr \<Rightarrow> pystr \<Rightarrow> pyerror + bool" where
  "verify_slack_signature L secret now body timestamp signature =
     (if secret = [] then Inr True
      else
        (case py_float L timestamp of
           None \<Rightarrow> Inr False
         | Some x \<Rightarrow>
             if far_from now x then Inr False
             else
               (case utf8_decode body of
                  None \<Rightarrow> Inl UnicodeDecodeError
                | Some b \<Rightarrow>
                    (let base = py ''v0:'' @ timestamp @ py '':'' @ b in
                     case utf8_encode secret of
                       None \<Rightarrow> Inl UnicodeEncodeError
                     | Some key \<Rightarrow>
                         (case utf8_encode base of
                            None \<Rightarrow> Inl UnicodeEncodeError
                          | Some msg \<Rightarrow>
                              compare_digest (py ''v0='' @ hexdigest (hmac_sha256 L key msg))
                                signature)))))"

text \<open>
  The signature as Slack computes it, over the bytes of the request: \<open>v0=\<close> and the
  hexadecimal HMAC-SHA256, under the secret, of \<open>v0:\<close>, the timestamp, \<open>:\<close> and the raw
  body.
\<close>

definition slack_signature :: "pylib \<Rightarrow> pystr \<Rightarrow> pystr \<Rightarrow> pybytes \<Rightarrow> pystr option" where
  "slack_signature L secret timestamp body =
     (case utf8_encode secret of
        None \<Rightarrow> None
      | Some key \<Rightarrow>
          (case utf8_encode (py ''v0:'' @ timestamp @ py '':'') of
             None \<Rightarrow> None
           | Some head \<Rightarrow> Some (py ''v0='' @ hexdigest (hmac_sha256 L key (head @ body)))))"

section \<open>The webhook handler\<close>

record request =
  req_body :: pybytes
  req_timestamp :: pystr
  req_signature :: pystr
  req_content_type :: pystr

text \<open>
  What the handler answers: the 401 response, the echoed challenge, \<open>{"ok": True}\<close>, or
  the acknowledgement of a slash command with its text.
\<close>

datatype response =
    InvalidSignature
  | Challenge json
  | OkTrue
  | SlashAck pystr

text \<open>
  Work the handler starts with \<open>asyncio.create_task\<close>: \<open>handle_event(event)\<close>, which
  ends in a call of the dispatcher, or the dispatcher itself with text, user, channel and
  response URL.
\<close>

datatype background =
    HandleEvent "(pystr \<times> json) list"
  | Dispatch pystr json json json

text \<open>\<open>{k: v[0] if len(v) == 1 else v for k, v in form.items()}\<close>\<close>

definition form_payload :: "(pystr \<times> pystr list) list \<Rightarrow> (pystr \<times> json) list" where
  "form_payload form =
     map (\<lambda>(k, v). (k, case v of [x] \<Rightarrow> JStr x | _ \<Rightarrow> JArr (map JStr v))) form"

definition handle_slash_command ::
  "(pystr \<times> json) list \<Rightarrow> (pyerror + response) \<times> background list" where
  "handle_slash_command payload =
     (case (let v = get_default payload ''text'' [] in if truthy v then v else JStr []) of
        JStr raw \<Rightarrow>
          (let txt = strip raw in
           (Inr (SlashAck (py ''Got it: '' @ [96] @ (if txt \<noteq> [] then txt else py ''help'') @ [96, 10] @
                           py ''Working on it...'')),
            [Dispatch txt (get_default payload ''user_id'' (py ''unknown''))
               (get_default payload ''channel_id'' []) (get_default payload ''response_url'' [])]))
      | _ \<Rightarrow> (Inl AttributeError, []))"

text \<open>The part of \<open>slack_events\<close> behind \<open>json.loads(body)\<close>.\<close>

definition events_api :: "json \<Rightarrow> (pyerror + response) \<times> background list" where
  "events_api payload =
     (case payload of
        JObj p \<Rightarrow>
          if dict_get p ''type'' = Some (JStr (py ''url_verification'')) then
            (case dict_get p ''challenge'' of
               None \<Rightarrow> (Inl KeyError, [])
             | Some c \<Rightarrow> (Inr (Challenge c), []))
          else if dict_get p ''type'' = Some (JStr (py ''event_callback'')) then
            (case (case dict_get p ''event'' of None \<Rightarrow> JObj [] | Some e \<Rightarrow> e) of
               JObj event \<Rightarrow>
                 if truthy_opt (dict_get event ''bot_id'') \<or>
                    dict_get event ''subtype'' = Some (JStr (py ''bot_message''))
                 then (Inr OkTrue, [])
                 else (Inr OkTrue, [HandleEvent event])
             | _ \<Rightarrow> (Inl AttributeError, []))
          else (Inr OkTrue, [])
      | _ \<Rightarrow> (Inl AttributeError, []))"

definition slack_events ::
  "pylib \<Rightarrow> pystr \<Rightarrow> real \<Rightarrow> request \<Rightarrow> (pyerror + response) \<times> background list" where
  "slack_events L secret now req =
     (case verify_slack_signature L secret now (req_body req) (req_timestamp req) (req_signature req) of
        Inl e \<Rightarrow> (Inl e, [])
      | Inr False \<Rightarrow> (Inr InvalidSignature, [])
      | Inr True \<Rightarrow>
          if sublist (py ''application/x-www-form-urlencoded'') (req_content_type req) then
            (case utf8_decode (req_body req) of
               None \<Rightarrow> (Inl UnicodeDecodeError, [])
             | Some form \<Rightarrow> handle_slash_command (form_payload (parse_qs L form)))
          else
            (case json_loads_bytes L (req_body req) of
               None \<Rightarrow> (Inl (json_loads_bytes_error L (req_body req)), [])
             | Some payload \<Rightarrow> events_api payload))"

section \<open>The dispatcher of the worker\<close>

text \<open>
  The \<open>JobHandler\<close> object carries the bot token; its GitHub client is outside. From
  outside come the fresh task id (\<open>str(uuid.uuid4())[:8]\<close>), the current time in ISO
  format and what \<open>github.write_file\<close> returns.
\<close>

record job_handler =
  jh_slack_bot_token :: pystr

record worker_env =
  new_task_id :: pystr
  utc_now :: pystr
  write_file_ok :: bool

definition respond :: "job_handler \<Rightarrow> pystr \<Rightarrow> pystr \<Rightarrow> pystr \<Rightarrow> pystr \<Rightarrow> effect list" where
  "respond self channel txt url thread =
     (if url \<noteq> [] then [RespondViaUrl url txt]
      else if channel \<noteq> [] \<and> jh_slack_bot_token self \<noteq> [] then [ChatPostMessage channel txt thread]
      else [])"

definition handle_help :: pystr where
  "handle_help =
     py ''*Claude Code Slack*'' @ [10, 10] @
     py ''Send any message and it will be processed by Claude Code running in your workspace.'' @ [10, 10] @
     py ''*Built-in commands:*'' @ [10] @
     [96] @ py ''help'' @ [96, 32, 8212] @ py '' This message'' @ [10] @
     [96] @ py ''status'' @ [96, 32, 8212] @ py '' Check if the bot is running'' @ [10, 10] @
     py ''*Examples:*'' @ [10] @
     [8226, 32, 96] @ py ''What files are in the src/ directory?'' @ [96, 10] @
     [8226, 32, 96] @ py ''Summarize the README'' @ [96, 10] @
     [8226, 32, 96] @ py ''Run the tests and tell me what failed'' @ [96, 10]"

definition dispatch_to_daemon ::
  "job_handler \<Rightarrow> worker_env \<Rightarrow> pystr \<Rightarrow> pystr \<Rightarrow> pystr \<Rightarrow> pystr \<Rightarrow> pystr \<Rightarrow> effect list" where
  "dispatch_to_daemon self env txt user channel url thread =
     (let tid = new_task_id env;
          queued = \<lparr>q_task_id = tid, q_prompt = txt, q_requested_by = user, q_channel_id = channel,
                    q_thread_ts = thread, q_response_url = url, q_created_at = utc_now env\<rparr>;
          path = py ''tasks/'' @ tid @ py ''.json'';
          commit_msg = py ''Task '' @ tid @ py '': '' @ take 50 txt
      in WriteFile path queued commit_msg #
         (if write_file_ok env then []
          else respond self channel (py ''Failed to dispatch task. Check GitHub token permissions.'')
                 url thread))"

definition dispatch ::
  "pylib \<Rightarrow> job_handler \<Rightarrow> worker_env \<Rightarrow> pystr \<Rightarrow> pystr \<Rightarrow> pystr \<Rightarrow> pystr \<Rightarrow> pystr \<Rightarrow> effect list" where
  "dispatch L self env txt user channel url thread =
     (let text_lower = strip (str_lower L txt) in
      if text_lower = py ''help'' \<or> text_lower = [] then
        respond self channel handle_help url thread
      else if text_lower = py ''status'' \<or> text_lower = py ''ping'' then
        respond self channel (py ''Bot is running. Daemon connectivity: checking via GitHub...'') url thread
      else dispatch_to_daemon self env txt user channel url thread)"

text \<open>How often a run calls the producer \<open>github.write_file\<close>.\<close>

definition producer_calls :: "effect list \<Rightarrow> nat" where
  "producer_calls effs = length (filter (\<lambda>e. case e of WriteFile _ _ _ \<Rightarrow> True | _ \<Rightarrow> False) effs)"

text \<open>The posts of a run to a given response URL.\<close>

definition url_posts :: "pystr \<Rightarrow> effect list \<Rightarrow> effect list" where
  "url_posts url effs = filter (\<lambda>e. case e of RespondViaUrl u _ \<Rightarrow> u = url | _ \<Rightarrow> False) effs"

text \<open>The text of a message that a call sends to Slack, if it sends one.\<close>

definition posted_text :: "effect \<Rightarrow> pystr option" where
  "posted_text e =
     (case e of RespondViaUrl _ t \<Rightarrow> Some t | ChatPostMessage _ t _ \<Rightarrow> Some t | _ \<Rightarrow> None)"

section \<open>What a run of process_task sends\<close>

text \<open>
  The parts of \<open>process_task\<close> by name: the acknowledgement text, the thread context it
  passes to \<open>run_claude\<close>, and what \<open>run_claude\<close> returns for the task (the standard
  output of the agent stripped of surrounding white space, or an error text).
\<close>

definition ack_text :: "task \<Rightarrow> pystr" where
  "ack_text task = py ''Processing: '' @ [96] @ take 80 (task_prompt task) @ [96] @ py ''...''"

definition task_context :: "daemon_env \<Rightarrow> task \<Rightarrow> pystr" where
  "task_context env task =
     (if task_thread_ts task \<noteq> [] \<and> task_channel_id task \<noteq> [] then
        format_thread_context (snd (fetch_thread_history env (task_channel_id task) (task_thread_ts task)))
      else [])"

definition claude_output :: "daemon_env \<Rightarrow> task \<Rightarrow> pystr" where
  "claude_output env task = snd (run_claude env (task_prompt task) (task_context env task))"

text \<open>
  The texts that a list of calls sends to Slack, in order; and whether a task can be
  answered at all: it has a response URL, or a channel while the daemon has a bot token.
\<close>

definition delivered :: "effect list \<Rightarrow> pystr list" where
  "delivered effs = List.map_filter posted_text effs"

definition has_locator :: "daemon_env \<Rightarrow> task \<Rightarrow> bool" where
  "has_locator env task \<longleftrightarrow>
     task_response_url task \<noteq> [] \<or> (task_channel_id task \<noteq> [] \<and> slack_bot_token env \<noteq> [])"

section \<open>The task queue as the daemon reads it\<close>

text \<open>
  The \<open>tasks\<close> directory of the repository: each file with its path, blob SHA and
  content (the bytes behind the base64 of the API). The contents API answers the GET of a
  path with status 200 and the file, or with 404.
\<close>

record repo_file =
  file_path :: pystr
  file_sha :: pystr
  file_content :: pybytes

record http_response =
  status_code :: nat
  data_sha :: pystr
  data_content :: pybytes

definition github_get :: "repo_file list \<Rightarrow> pystr \<Rightarrow> http_response" where
  "github_get repo path =
     (case find (\<lambda>f. file_path f = path) repo of
        None \<Rightarrow> \<lparr>status_code = 404, data_sha = [], data_content = []\<rparr>
      | Some f \<Rightarrow> \<lparr>status_code = 200, data_sha = file_sha f, data_content = file_content f\<rparr>)"

text \<open>
  \<open>read_task\<close> on the answer of the contents API: absent for a status other than 200.
  Otherwise the content is decoded and parsed, neither step in a \<open>try\<close>, and the keys
  \<open>_sha\<close> and \<open>_path\<close> are set on the result, which raises \<open>TypeError\<close> when the
  JSON value is not an object. The fields of the task are returned as they are, whatever
  their types.
\<close>

definition read_task ::
  "pylib \<Rightarrow> http_response \<Rightarrow> pystr \<Rightarrow> pyerror + (pystr \<times> json) list option" where
  "read_task L resp path =
     (if status_code resp \<noteq> 200 then Inr None
      else
        (case utf8_decode (data_content resp) of
           None \<Rightarrow> Inl UnicodeDecodeError
         | Some content \<Rightarrow>
             (case json_loads L content of
                None \<Rightarrow> Inl JSONDecodeError
              | Some (JObj d) \<Rightarrow>
                  Inr (Some (dict_set (dict_set d (py ''_sha'') (JStr (data_sha resp)))
                               (py ''_path'') (JStr path)))
              | Some _ \<Rightarrow> Inl TypeError)))"

section \<open>Concrete inputs\<close>

text \<open>
  Stand-ins for the library on the inputs used below: lower-casing of ASCII letters,
  \<open>float\<close> on an unsigned decimal integer, a digest function, and JSON decoding of the
  two documents that occur.
\<close>

definition ascii_lower :: "pystr \<Rightarrow> pystr" where
  "ascii_lower s = map (\<lambda>c. if 65 \<le> c \<and> c \<le> 90 then c + 32 else c) s"

definition decimal :: "pystr \<Rightarrow> pyfloat option" where
  "decimal s =
     (if s \<noteq> [] \<and> list_all (\<lambda>c. 48 \<le> c \<and> c \<le> 57) s
      then Some (FloatNum (real (foldl (\<lambda>a c. 10 * a + (c - 48)) 0 s)))
      else None)"

definition quoted :: "string \<Rightarrow> pystr" where
  "quoted s = [34] @ py s @ [34]"

text \<open>
  An event callback for a message that a bot posted:
  \<open>{"type":"event_callback","event":{"bot_id":"B01","text":"hi"}}\<close>.
\<close>

definition bot_event_body :: pybytes where
  "bot_event_body =
     [123] @ quoted ''type'' @ [58] @ quoted ''event_callback'' @ [44] @ quoted ''event'' @ [58, 123] @
     quoted ''bot_id'' @ [58] @ quoted ''B01'' @ [44] @ quoted ''text'' @ [58] @ quoted ''hi'' @ [125, 125]"

definition bot_event_payload :: json where
  "bot_event_payload =
     JObj [(py ''type'', JStr (py ''event_callback'')),
           (py ''event'', JObj [(py ''bot_id'', JStr (py ''B01'')), (py ''text'', JStr (py ''hi''))])]"

definition example_lib :: pylib where
  "example_lib =
     \<lparr>str_lower = ascii_lower,
      py_float = decimal,
      hmac_sha256 = (\<lambda>key msg. replicate 32 0),
      json_loads = (\<lambda>s. if s = py ''{}'' then Some (JObj []) else None),
      json_loads_bytes = (\<lambda>b. if b = bot_event_body then Some bot_event_payload else None),
      json_loads_bytes_error = (\<lambda>b. if utf8_decode b = None then UnicodeDecodeError else JSONDecodeError),
      parse_qs = (\<lambda>s. [])\<rparr>"

definition example_handler :: job_handler where
  "example_handler = \<lparr>jh_slack_bot_token = py ''xoxb-1''\<rparr>"

definition example_worker_env :: worker_env where
  "example_worker_env = \<lparr>new_task_id = py ''1a2b3c4d'', utc_now = py ''2025-01-01T00:00:00+00:00'', write_file_ok = True\<rparr>"

definition example_env :: daemon_env where
  "example_env =
     \<lparr>slack_bot_token = py ''xoxb-1'',
      claude_timeout = 300,
      conversations_replies = (\<lambda>channel thread. None),
      claude_process = (\<lambda>prompt. Completed 0 (py ''done'') [])\<rparr>"

text \<open>A text of \<open>n\<close> letters \<open>a\<close>, and the example daemon with an agent that prints a given text.\<close>

definition plain_text :: "nat \<Rightarrow> pystr" where
  "plain_text n = replicate n 97"

definition agent_env :: "pystr \<Rightarrow> daemon_env" where
  "agent_env out =
     \<lparr>slack_bot_token = py ''xoxb-1'',
      claude_timeout = 300,
      conversations_replies = (\<lambda>channel thread. None),
      claude_process = (\<lambda>prompt. Completed 0 out [])\<rparr>"

text \<open>A task that came from a slash command, with its response URL.\<close>

definition slash_task :: task where
  "slash_task =
     \<lparr>task_id = py ''1a2b3c4d'', task_prompt = py ''list files'', task_channel_id = py ''C01'',
      task_response_url = py ''https://hooks.slack.com/commands/1'', task_thread_ts = [],
      task_sha = py ''abc'', task_path = py ''tasks/1a2b3c4d.json''\<rparr>"

text \<open>
  Two threads of three messages: a bot message, a human message and the current request.
  In the second the bot's message has two lines.
\<close>

definition human_message :: message where
  "human_message = \<lparr>msg_text = Some (py ''<@U123> thanks''), msg_bot_id = None, msg_subtype = None\<rparr>"

definition current_message :: message where
  "current_message = \<lparr>msg_text = Some (py ''<@U123> run the tests''), msg_bot_id = None, msg_subtype = None\<rparr>"

definition bot_hello :: message where
  "bot_hello = \<lparr>msg_text = Some (py ''Hello''), msg_bot_id = Some (py ''B01''), msg_subtype = None\<rparr>"

definition short_thread :: "message list" where
  "short_thread = [bot_hello, human_message, current_message]"

definition long_thread :: "message list" where
  "long_thread =
     [\<lparr>msg_text = Some (py ''Done.'' @ [10] @ py ''Anything else?''), msg_bot_id = Some (py ''B01''),
       msg_subtype = None\<rparr>,
      human_message, current_message]"

text \<open>
  The reading of a two-line block labelled by role: the text consists of two lines, each
  ended by a newline and each starting with \<open>Bot: \<close> or \<open>User: \<close>, with or without the
  header line before them.
\<close>

definition role_labelled :: "pystr \<Rightarrow> bool" where
  "role_labelled l \<longleftrightarrow> prefix (py ''Bot: '') l \<or> prefix (py ''User: '') l"

definition two_role_lines :: "pystr \<Rightarrow> bool" where
  "two_role_lines s =
     (case split_nl s of
        [a, b, e] \<Rightarrow> role_labelled a \<and> role_labelled b \<and> e = []
      | [h, a, b, e] \<Rightarrow> h = context_header \<and> role_labelled a \<and> role_labelled b \<and> e = []
      | _ \<Rightarrow> False)"

text \<open>
  A request whose body is the single byte 255, which is not UTF-8, sent at the current
  time; and a queue with one file that is not JSON.
\<close>

definition example_secret :: pystr where
  "example_secret = py ''8f742231b10e8888abcd99yyyzzz85a5''"

definition example_now :: real where
  "example_now = 1700000000"

definition example_timestamp :: pystr where
  "example_timestamp = py ''1700000000''"

text \<open>With the stand-in digest, every signature is \<open>v0=\<close> and 64 zeros.\<close>

definition example_signature :: pystr where
  "example_signature = py ''v0='' @ replicate 64 48"

definition bot_event_request :: request where
  "bot_event_request =
     \<lparr>req_body = bot_event_body, req_timestamp = example_timestamp,
      req_signature = example_signature,
      req_content_type = py ''application/json''\<rparr>"

definition broken_file :: repo_file where
  "broken_file =
     \<lparr>file_path = py ''tasks/1a2b3c4d.json'', file_sha = py ''abc'',
      file_content = py ''{not json''\<rparr>"

section \<open>Evaluation on concrete inputs\<close>

text \<open>The defining equations that evaluate the conversion and the thread context.\<close>

lemmas md_eval = py_def markdown_to_slack_def convert_part_def convert_line_def
  re_split_fenced.simps fence_def header_match_def rule_match_def strip_def isspace_def
  ws_then_text_def bullet_match_def bold_italic_def bold_def strike_def link_def image_def
  bracket_paren_def delimited_def Let_def

lemmas thread_eval = py_def format_thread_context_def context_line_def strip_mentions_def
  mention_def upper_or_digit_def truthy_str_def message_text_def context_header_def
  List.map_filter_simps strip_def isspace_def Let_def

section \<open>The markup translator\<close>

text \<open>
  C5. The six conversions of the specification: bold, bold-italic, link, strikethrough,
  heading and bullet item. The bullet glyph is the code point 8226 (U+2022).
\<close>

theorem markdown_examples:
  "markdown_to_slack (py ''**bold**'') = py ''*bold*'' \<and>
   markdown_to_slack (py ''***both***'') = py ''*_both_*'' \<and>
   markdown_to_slack (py ''[a](http://x)'') = py ''<http://x|a>'' \<and>
   markdown_to_slack (py ''~~s~~'') = py ''~s~'' \<and>
   markdown_to_slack (py ''## Title'') = py ''*Title*'' \<and>
   markdown_to_slack (py ''* item'') = [8226] @ py '' item''"
proof -
  have 1: "markdown_to_slack (py ''**bold**'') = py ''*bold*''" by (simp add: md_eval)
  have 2: "markdown_to_slack (py ''***both***'') = py ''*_both_*''" by (simp add: md_eval)
  have 3: "markdown_to_slack (py ''[a](http://x)'') = py ''<http://x|a>''" by (simp add: md_eval)
  have 4: "markdown_to_slack (py ''~~s~~'') = py ''~s~''" by (simp add: md_eval)
  have 5: "markdown_to_slack (py ''## Title'') = py ''*Title*''" by (simp add: md_eval)
  have 6: "markdown_to_slack (py ''* item'') = [8226] @ py '' item''" by (simp add: md_eval)
  from 1 2 3 4 5 6 show ?thesis by (intro conjI)
qed

text \<open>
  Where the first occurrence of a delimiter lies: if \<open>d\<close> does not occur in \<open>a\<close> followed
  by all but the last character of \<open>d\<close>, the first occurrence in \<open>a @ d @ b\<close> is the one
  written out.
\<close>

lemma find_sub_first:
  assumes "d \<noteq> []" and "\<not> sublist d (a @ butlast d)"
  shows "find_sub d (a @ d @ b) = Some (a, b)"
  using assms(2)
proof (induction a)
  case Nil
  with assms(1) show ?case by (cases d) auto
next
  case (Cons x a)
  have "\<not> prefix d (x # a @ d @ b)"
  proof
    assume p: "prefix d (x # a @ d @ b)"
    have "x # a @ d @ b = ((x # a) @ butlast d) @ (last d # b)"
      using assms(1) by simp
    with p have "prefix d (((x # a) @ butlast d) @ (last d # b))" by simp
    moreover have "length d \<le> length ((x # a) @ butlast d)" by simp
    ultimately have "prefix d ((x # a) @ butlast d)"
      by (metis prefix_length_prefix prefixI)
    then have "sublist d ((x # a) @ butlast d)" by (rule prefix_imp_sublist)
    with Cons.prems show False by simp
  qed
  moreover have "\<not> sublist d (a @ butlast d)"
    using Cons.prems by (auto simp: sublist_Cons_right)
  ultimately show ?case using Cons.IH by simp
qed

lemma enumerate_parity:
  "map (\<lambda>(i, p). if i mod 2 = 1 then p else f p) (enumerate (Suc (Suc n)) ps) =
   map (\<lambda>(i, p). if i mod 2 = 1 then p else f p) (enumerate n ps)"
  by (induction ps arbitrary: n) (auto simp: mod_Suc)

lemma re_split_fenced_region:
  assumes "\<not> sublist fence (pre @ butlast fence)" and "\<not> sublist fence (body @ butlast fence)"
  shows "re_split_fenced (pre @ fence @ body @ fence @ post) =
           pre # (fence @ body @ fence) # re_split_fenced post"
proof -
  have d: "fence \<noteq> []" by (simp add: fence_def)
  have 1: "find_sub fence (pre @ fence @ body @ fence @ post) = Some (pre, body @ fence @ post)"
    using find_sub_first [OF d assms(1)] by simp
  have 2: "find_sub fence (body @ fence @ post) = Some (body, post)"
    using find_sub_first [OF d assms(2)] by simp
  show ?thesis
    by (subst re_split_fenced.simps) (simp add: 1 2)
qed

lemma markdown_to_slack_region:
  assumes "\<not> sublist fence (pre @ butlast fence)" and "\<not> sublist fence (body @ butlast fence)"
  shows "markdown_to_slack (pre @ fence @ body @ fence @ post) =
           convert_part pre @ fence @ body @ fence @ markdown_to_slack post"
  unfolding markdown_to_slack_def re_split_fenced_region [OF assms]
  by (simp add: enumerate_parity [simplified])

text \<open>
  C1. Fenced code regions are kept verbatim. Let the text begin with any number of fenced
  regions, each written as the text \<open>pre\<close> before it, the opening triple backtick, the
  content \<open>body\<close> and the closing triple backtick, where the opening fence is the first
  triple backtick behind the previous region and the closing fence the first one behind
  the opening fence (the triple backtick does not occur in \<open>pre\<close> or \<open>body\<close> followed by
  two backticks). Then the output has every fence and every content unchanged and in
  place, the rewriting rules having been applied to the texts outside only; the rest of the
  text is translated in the same way.
\<close>

theorem fenced_regions_verbatim:
  assumes "\<forall>(pre, body) \<in> set regions.
             \<not> sublist fence (pre @ butlast fence) \<and> \<not> sublist fence (body @ butlast fence)"
  shows "markdown_to_slack (concat (map (\<lambda>(pre, body). pre @ fence @ body @ fence) regions) @ rest) =
           concat (map (\<lambda>(pre, body). convert_part pre @ fence @ body @ fence) regions) @
           markdown_to_slack rest"
  using assms
proof (induction regions)
  case Nil
  show ?case by simp
next
  case (Cons r regions)
  obtain pre body where r: "r = (pre, body)" by (cases r)
  from Cons.prems r have h: "\<not> sublist fence (pre @ butlast fence)" "\<not> sublist fence (body @ butlast fence)"
    by auto
  from Cons.prems have "\<forall>(pre, body) \<in> set regions.
             \<not> sublist fence (pre @ butlast fence) \<and> \<not> sublist fence (body @ butlast fence)"
    by simp
  from Cons.IH [OF this] show ?case
    using markdown_to_slack_region [OF h] by (simp add: r)
qed

text \<open>
  Two regions whose contents look like bold text and like a heading, with bold text behind
  them: only the text behind them is rewritten.
\<close>

theorem fenced_regions_verbatim_witness:
  "markdown_to_slack
     (py ''a '' @ fence @ py ''**b**'' @ fence @ py '' x'' @ fence @ py ''# c'' @ fence @ py '' **d**'') =
   py ''a '' @ fence @ py ''**b**'' @ fence @ py '' x'' @ fence @ py ''# c'' @ fence @ py '' *d*''"
proof -
  have h: "\<forall>(pre, body) \<in> set [(py ''a '', py ''**b**''), (py '' x'', py ''# c'')].
             \<not> sublist fence (pre @ butlast fence) \<and> \<not> sublist fence (body @ butlast fence)"
    by (simp add: fence_def py_def sublist_code)
  have 1: "convert_part (py ''a '') = py ''a ''" by (simp add: md_eval)
  have 2: "convert_part (py '' x'') = py '' x''" by (simp add: md_eval)
  have 3: "markdown_to_slack (py '' **d**'') = py '' *d*''" by (simp add: md_eval)
  from fenced_regions_verbatim [OF h, of "py '' **d**''"] show ?thesis
    by (simp add: 1 2 3)
qed

section \<open>Thread context\<close>

text \<open>
  C8, as amended. A list of at most one message gives the empty context. For a bot message,
  a human message (no bot id, no subtype) and the current request, the two earlier ones
  with text left after the mentions are stripped, the context is the header line followed
  by the entry \<open>Bot: \<close> with the bot's text and the entry \<open>User: \<close> with the human's text,
  each ended by a newline; the current request is left out.
\<close>

theorem format_thread_context_entries:
  "(length messages \<le> 1 \<longrightarrow> format_thread_context messages = []) \<and>
   (truthy_str (msg_bot_id b) \<and> \<not> truthy_str (msg_bot_id h) \<and> \<not> truthy_str (msg_subtype h) \<and>
    strip_mentions (message_text b) \<noteq> [] \<and> strip_mentions (message_text h) \<noteq> [] \<longrightarrow>
    format_thread_context [b, h, latest] =
      context_header @ [10] @ py ''Bot: '' @ strip_mentions (message_text b) @ [10] @
      py ''User: '' @ strip_mentions (message_text h) @ [10])"
  by (simp add: format_thread_context_def List.map_filter_simps context_line_def Let_def)

theorem format_thread_context_entries_witness:
  "format_thread_context [] = [] \<and> format_thread_context [current_message] = [] \<and>
   format_thread_context short_thread =
     py ''Previous conversation in this thread:'' @ [10] @ py ''Bot: Hello'' @ [10] @
     py ''User: thanks'' @ [10]"
proof -
  have e: "strip_mentions (message_text bot_hello) = py ''Hello''"
    by (simp add: bot_hello_def thread_eval)
  have h: "strip_mentions (message_text human_message) = py ''thanks''"
    by (simp add: human_message_def thread_eval)
  have c: "truthy_str (msg_bot_id bot_hello) \<and> \<not> truthy_str (msg_bot_id human_message) \<and>
           \<not> truthy_str (msg_subtype human_message)"
    by (simp add: bot_hello_def human_message_def truthy_str_def py_def)
  have n: "py ''Hello'' \<noteq> [] \<and> py ''thanks'' \<noteq> []" by (simp add: py_def)
  have 1: "format_thread_context [] = []"
    using format_thread_context_entries [of "[]" bot_hello human_message current_message] by simp
  have 2: "format_thread_context [current_message] = []"
    using format_thread_context_entries [of "[current_message]" bot_hello human_message current_message]
    by simp
  have 3: "format_thread_context [bot_hello, human_message, current_message] =
      context_header @ [10] @ py ''Bot: '' @ py ''Hello'' @ [10] @ py ''User: '' @ py ''thanks'' @ [10]"
    using format_thread_context_entries [of "[]" bot_hello human_message current_message] c e h n
    by simp
  have 4: "py ''Bot: '' @ py ''Hello'' = py ''Bot: Hello''" "py ''User: '' @ py ''thanks'' = py ''User: thanks''"
    by (simp_all add: py_def)
  from 1 2 3 4 show ?thesis
    by (simp add: short_thread_def context_header_def)
qed

text \<open>
  C8 as stated fails: when the bot's earlier message has two lines, the context is the
  header, \<open>Bot: Done.\<close>, \<open>Anything else?\<close> and \<open>User: thanks\<close>. That is not a block of two
  lines each labelled by role, with or without the header counted.
\<close>

theorem two_role_lines_counterexample:
  "\<not> two_role_lines (format_thread_context long_thread)"
proof -
  have "format_thread_context long_thread =
      py ''Previous conversation in this thread:'' @ [10] @ py ''Bot: Done.'' @ [10] @
      py ''Anything else?'' @ [10] @ py ''User: thanks'' @ [10]"
    by (simp add: long_thread_def human_message_def current_message_def thread_eval)
  then show ?thesis
    by (simp add: two_role_lines_def role_labelled_def context_header_def py_def)
qed

section \<open>Task processing\<close>

lemma url_posts_append: "url_posts u (xs @ ys) = url_posts u xs @ url_posts u ys"
  by (simp add: url_posts_def)

lemma url_posts_Cons:
  "url_posts u (e # es) =
     (case e of RespondViaUrl v _ \<Rightarrow> if v = u then e # url_posts u es else url_posts u es
      | _ \<Rightarrow> url_posts u es)"
  by (simp add: url_posts_def split: effect.split)

lemma url_posts_Nil: "url_posts u [] = []"
  by (simp add: url_posts_def)

lemma url_posts_fetch: "url_posts u (fst (fetch_thread_history env c t)) = []"
  by (simp add: fetch_thread_history_def url_posts_def)

lemma url_posts_run: "url_posts u (fst (run_claude env p c)) = []"
  by (simp add: run_claude_def url_posts_def Let_def)

text \<open>The calls of \<open>process_task\<close> in order, with its parts by name.\<close>

lemma process_task_unfold:
  "process_task env task =
     (if task_response_url task \<noteq> [] then respond_via_url (task_response_url task) (ack_text task)
      else if task_channel_id task \<noteq> [] then
        post_to_slack env (task_channel_id task) (ack_text task) (task_thread_ts task)
      else []) @
     (if task_thread_ts task \<noteq> [] \<and> task_channel_id task \<noteq> [] then
        fst (fetch_thread_history env (task_channel_id task) (task_thread_ts task))
      else []) @
     fst (run_claude env (task_prompt task) (task_context env task)) @
     (if task_response_url task \<noteq> [] then
        respond_via_url (task_response_url task)
          (truncate_output (markdown_to_slack (claude_output env task)))
      else if task_channel_id task \<noteq> [] then
        post_to_slack env (task_channel_id task)
          (truncate_output (markdown_to_slack (claude_output env task))) (task_thread_ts task)
      else []) @
     [DeleteTask (task_path task) (task_sha task), SyncWorkspace]"
  unfolding process_task_def Let_def split_def ack_text_def task_context_def claude_output_def
  by (cases "task_thread_ts task = []"; cases "task_channel_id task = []"; simp)

lemma url_posts_process_task:
  assumes "task_response_url task \<noteq> []"
  shows "url_posts (task_response_url task) (process_task env task) =
           [RespondViaUrl (task_response_url task) (ack_text task),
            RespondViaUrl (task_response_url task)
              (truncate_output (markdown_to_slack (claude_output env task)))]"
  using assms
  by (cases "task_thread_ts task = []"; cases "task_channel_id task = []";
      simp add: process_task_unfold url_posts_append url_posts_fetch url_posts_run
        respond_via_url_def url_posts_Cons url_posts_Nil)

lemma url_posts_take: "prefix (url_posts u (take k effs)) (url_posts u effs)"
proof -
  have "url_posts u effs = url_posts u (take k effs) @ url_posts u (drop k effs)"
    using url_posts_append [of u "take k effs" "drop k effs"] by simp
  then show ?thesis by (metis prefixI)
qed

text \<open>What the example daemon sends for the task of a slash command.\<close>

lemma ack_text_slash_task:
  "ack_text slash_task = py ''Processing: '' @ [96] @ py ''list files'' @ [96] @ py ''...''"
  by (simp add: ack_text_def slash_task_def py_def)

lemma claude_output_exit_0:
  assumes "\<And>p. claude_process env p = Completed 0 out err"
  shows "claude_output env task = strip out"
  by (simp add: claude_output_def run_claude_def Let_def assms)

lemma translated_output_example:
  "markdown_to_slack (claude_output example_env slash_task) = py ''done''"
proof -
  have "claude_output example_env slash_task = strip (py ''done'')"
    by (rule claude_output_exit_0 [where err = "[]"]) (simp add: example_env_def)
  moreover have "strip (py ''done'') = py ''done''"
    by (simp add: strip_def isspace_def py_def)
  moreover have "markdown_to_slack (py ''done'') = py ''done''"
    by (simp add: md_eval)
  ultimately show ?thesis by simp
qed

lemma result_text_example:
  "truncate_output (markdown_to_slack (claude_output example_env slash_task)) = py ''done''"
  unfolding translated_output_example by (simp add: truncate_output_def py_def)

text \<open>
  C3, as amended. For a task that carries a response URL, a run of \<open>process_task\<close> in
  which no call raises posts to that URL exactly twice: first the acknowledgement
  \<open>Processing\<close> with the first 80 characters of the prompt, then the result, which is
  what \<open>run_claude\<close> returns, translated by \<open>markdown_to_slack\<close> and truncated. A run that
  an exception cuts short has made the first \<open>k\<close> of the calls for some \<open>k\<close>; its posts to
  the URL are a prefix of these two, so it has posted to the URL at most twice.
\<close>

theorem response_url_posted_twice:
  assumes "task_response_url task \<noteq> []"
  shows "url_posts (task_response_url task) (process_task env task) =
           [RespondViaUrl (task_response_url task) (ack_text task),
            RespondViaUrl (task_response_url task)
              (truncate_output (markdown_to_slack (claude_output env task)))] \<and>
         (\<forall>k. prefix (url_posts (task_response_url task) (take k (process_task env task)))
                [RespondViaUrl (task_response_url task) (ack_text task),
                 RespondViaUrl (task_response_url task)
                   (truncate_output (markdown_to_slack (claude_output env task)))]) \<and>
         (\<forall>k. length (url_posts (task_response_url task) (take k (process_task env task))) \<le> 2)"
proof -
  let ?posts = "[RespondViaUrl (task_response_url task) (ack_text task),
     RespondViaUrl (task_response_url task)
       (truncate_output (markdown_to_slack (claude_output env task)))]"
  have all: "url_posts (task_response_url task) (process_task env task) = ?posts"
    using assms by (rule url_posts_process_task)
  have pre: "prefix (url_posts (task_response_url task) (take k (process_task env task))) ?posts" for k
    using url_posts_take [of "task_response_url task" k "process_task env task"] all by simp
  have "length (url_posts (task_response_url task) (take k (process_task env task))) \<le> 2" for k
    using prefix_length_le [OF pre [of k]] by simp
  with all pre show ?thesis by simp
qed

theorem response_url_posted_twice_witness:
  "url_posts (py ''https://hooks.slack.com/commands/1'') (process_task example_env slash_task) =
     [RespondViaUrl (py ''https://hooks.slack.com/commands/1'')
        (py ''Processing: '' @ [96] @ py ''list files'' @ [96] @ py ''...''),
      RespondViaUrl (py ''https://hooks.slack.com/commands/1'') (py ''done'')] \<and>
   prefix (url_posts (py ''https://hooks.slack.com/commands/1'') (take 1 (process_task example_env slash_task)))
     [RespondViaUrl (py ''https://hooks.slack.com/commands/1'')
        (py ''Processing: '' @ [96] @ py ''list files'' @ [96] @ py ''...''),
      RespondViaUrl (py ''https://hooks.slack.com/commands/1'') (py ''done'')]"
proof -
  have u: "task_response_url slash_task = py ''https://hooks.slack.com/commands/1''"
    by (simp add: slash_task_def)
  have "task_response_url slash_task \<noteq> []" by (simp add: slash_task_def py_def)
  from response_url_posted_twice [OF this, of example_env] show ?thesis
    unfolding u ack_text_slash_task result_text_example by blast
qed

text \<open>
  C3 as stated fails: for the task of a slash command, the response URL is posted to more
  than once.
\<close>

theorem response_url_posted_at_most_once_counterexample:
  "\<not> length (url_posts (task_response_url slash_task) (process_task example_env slash_task)) \<le> 1"
proof -
  have "markdown_to_slack (py ''done'') = py ''done''" by (simp add: md_eval)
  then show ?thesis
    by (simp add: process_task_def slash_task_def example_env_def run_claude_def respond_via_url_def
        url_posts_def truncate_output_def strip_def isspace_def py_def Let_def)
qed

section \<open>Truncation\<close>

text \<open>The texts that the calls of \<open>process_task\<close> deliver.\<close>

lemma delivered_Nil: "delivered [] = []"
  by (simp add: delivered_def map_filter_def)

lemma delivered_append: "delivered (xs @ ys) = delivered xs @ delivered ys"
  by (simp add: delivered_def map_filter_def)

lemma delivered_fetch: "delivered (fst (fetch_thread_history env c t)) = []"
  by (simp add: fetch_thread_history_def delivered_def map_filter_def posted_text_def)

lemma delivered_run: "delivered (fst (run_claude env p c)) = []"
  by (simp add: run_claude_def delivered_def map_filter_def posted_text_def Let_def)

lemma delivered_respond: "delivered (respond_via_url u t) = [t]"
  by (simp add: respond_via_url_def delivered_def map_filter_def posted_text_def)

lemma delivered_post:
  "delivered (post_to_slack env c t th) = (if slack_bot_token env = [] then [] else [t])"
  by (simp add: post_to_slack_def delivered_def map_filter_def posted_text_def)

lemma delivered_cleanup: "delivered [DeleteTask p s, SyncWorkspace] = []"
  by (simp add: delivered_def map_filter_def posted_text_def)

lemma delivered_process_task:
  "delivered (process_task env task) =
     (if has_locator env task then
        [ack_text task, truncate_output (markdown_to_slack (claude_output env task))]
      else [])"
  by (simp add: process_task_unfold delivered_append delivered_fetch delivered_run
      delivered_respond delivered_post delivered_cleanup delivered_Nil has_locator_def)

text \<open>A text of letters \<open>a\<close> only is left as it is by \<open>strip\<close> and by the translation.\<close>

lemma find_sub_plain: "find_sub fence (replicate n 97) = None"
  by (induction n) (simp_all add: fence_def)

lemma split_nl_plain: "split_nl (replicate n 97) = [replicate n 97]"
  by (induction n) simp_all

lemma dropWhile_isspace_plain: "dropWhile isspace (replicate n 97) = replicate n 97"
  by (cases n) (simp_all add: isspace_def)

lemma strip_plain: "strip (replicate n 97) = replicate n 97"
  by (simp add: strip_def isspace_def)

lemma strip_plain_newline: "strip (replicate n 97 @ [10]) = replicate n 97"
proof (cases n)
  case 0
  then show ?thesis by (simp add: strip_def isspace_def)
next
  case (Suc k)
  have "dropWhile isspace (replicate (Suc k) 97 @ [10]) = replicate (Suc k) 97 @ [10]"
    by (simp add: isspace_def)
  moreover have "dropWhile isspace (10 # replicate (Suc k) 97) = replicate (Suc k) 97"
    using dropWhile_isspace_plain [of "Suc k"] by (simp add: isspace_def)
  ultimately show ?thesis
    unfolding Suc strip_def by (simp del: replicate.simps)
qed

lemma re_sub_plain:
  assumes "\<And>s. m (97 # s) = None"
  shows "re_sub m (replicate n 97) = replicate n 97"
  by (induction n) (simp_all add: assms)

lemma convert_line_plain: "convert_line (replicate n 97) = replicate n 97"
proof -
  have h: "header_match (replicate n 97) = None"
    by (cases n) (simp_all add: header_match_def)
  have r: "\<not> rule_match (replicate n 97)"
    by (cases n) (simp_all add: rule_match_def)
  have d: "delimited d l r (97 # s) = None" if "hd d \<noteq> 97" "d \<noteq> []" for d l r s
    using that by (cases d) (simp_all add: delimited_def)
  have 1: "re_sub bold_italic (replicate n 97) = replicate n 97"
    by (rule re_sub_plain) (simp add: bold_italic_def d py_def)
  have 2: "re_sub bold (replicate n 97) = replicate n 97"
    by (rule re_sub_plain) (simp add: bold_def d py_def)
  have 3: "re_sub link (replicate n 97) = replicate n 97"
    by (rule re_sub_plain) (simp add: link_def)
  have 4: "re_sub image (replicate n 97) = replicate n 97"
    by (rule re_sub_plain) (simp add: image_def)
  have 5: "re_sub strike (replicate n 97) = replicate n 97"
    by (rule re_sub_plain) (simp add: strike_def d py_def)
  have b: "bullet_match (replicate n 97) = None"
    by (cases n) (simp_all add: bullet_match_def isspace_def)
  show ?thesis
    by (simp add: convert_line_def h r strip_plain 1 2 3 4 5 b)
qed

lemma markdown_to_slack_plain: "markdown_to_slack (replicate n 97) = replicate n 97"
proof -
  have "re_split_fenced (replicate n 97) = [replicate n 97]"
    by (simp add: re_split_fenced.simps [of "replicate n 97"] find_sub_plain)
  then show ?thesis
    by (simp add: markdown_to_slack_def convert_part_def split_nl_plain convert_line_plain)
qed

lemma claude_output_agent_env: "claude_output (agent_env out) task = strip out"
  by (rule claude_output_exit_0 [where err = "[]"]) (simp add: agent_env_def)

lemma has_locator_slash_task: "has_locator env slash_task"
  by (simp add: has_locator_def slash_task_def py_def)

text \<open>
  C6, as amended. Let a task be one that can be answered: it has a response URL, or a
  channel while the bot token is set. Let \<open>out\<close> be the text that reaches the truncation
  step of \<open>process_task\<close>: what \<open>run_claude\<close> returns (the standard output of the agent
  stripped of surrounding white space, or an error text), translated by
  \<open>markdown_to_slack\<close>. If \<open>out\<close> is longer than 3900 characters, \<open>process_task\<close> delivers
  the acknowledgement and then the first 3900 characters of \<open>out\<close> followed by the
  marker; if it is at most 3900 characters long, it delivers the acknowledgement and then
  \<open>out\<close> unchanged; and no text it delivers is longer than 4000 characters.
\<close>

theorem delivered_output_truncated:
  assumes "has_locator env task"
  shows "(length (markdown_to_slack (claude_output env task)) > 3900 \<longrightarrow>
            delivered (process_task env task) =
              [ack_text task,
               take 3900 (markdown_to_slack (claude_output env task)) @ [10] @ py ''...(truncated)'']) \<and>
         (length (markdown_to_slack (claude_output env task)) \<le> 3900 \<longrightarrow>
            delivered (process_task env task) =
              [ack_text task, markdown_to_slack (claude_output env task)]) \<and>
         (\<forall>t \<in> set (delivered (process_task env task)). length t \<le> 4000)"
proof -
  have d: "delivered (process_task env task) =
      [ack_text task, truncate_output (markdown_to_slack (claude_output env task))]"
    using assms by (simp add: delivered_process_task)
  have a: "length (ack_text task) \<le> 4000"
    by (simp add: ack_text_def py_def)
  have t: "length (truncate_output s) \<le> 4000" for s
    by (simp add: truncate_output_def py_def)
  show ?thesis
    unfolding d using a t by (simp add: truncate_output_def)
qed

text \<open>
  An agent that prints 3901 letters is answered with the first 3900 and the marker, and
  one that prints \<open>done\<close> with \<open>done\<close>.
\<close>

theorem delivered_output_truncated_witness:
  "has_locator (agent_env (plain_text 3901)) slash_task \<and>
   length (markdown_to_slack (claude_output (agent_env (plain_text 3901)) slash_task)) > 3900 \<and>
   delivered (process_task (agent_env (plain_text 3901)) slash_task) =
     [ack_text slash_task, plain_text 3900 @ [10] @ py ''...(truncated)''] \<and>
   delivered (process_task example_env slash_task) = [ack_text slash_task, py ''done''] \<and>
   length (plain_text 3900 @ [10] @ py ''...(truncated)'') \<le> 4000"
proof -
  have o: "markdown_to_slack (claude_output (agent_env (plain_text 3901)) slash_task) = plain_text 3901"
    by (simp add: claude_output_agent_env plain_text_def strip_plain markdown_to_slack_plain)
  have l: "length (plain_text 3901) > 3900"
    by (simp add: plain_text_def)
  have k: "take 3900 (plain_text 3901) = plain_text 3900"
    by (simp add: plain_text_def)
  note e = translated_output_example
  have s: "length (py ''done'') \<le> 3900"
    by (simp add: py_def)
  from delivered_output_truncated [OF has_locator_slash_task, of "agent_env (plain_text 3901)"]
    delivered_output_truncated [OF has_locator_slash_task, of example_env]
  show ?thesis
    unfolding o e using l k s has_locator_slash_task by auto
qed

text \<open>
  C6 as stated fails. The agent prints 3900 letters and a newline, 3901 characters. The
  newline is stripped before the length is tested, and the 3900 letters are delivered
  with no marker.
\<close>

theorem agent_output_not_truncated_counterexample:
  "length (plain_text 3900 @ [10]) > 3900 \<and>
   delivered (process_task (agent_env (plain_text 3900 @ [10])) slash_task) =
     [ack_text slash_task, plain_text 3900] \<and>
   plain_text 3900 \<noteq> take 3900 (plain_text 3900 @ [10]) @ [10] @ py ''...(truncated)''"
proof -
  have o: "markdown_to_slack (claude_output (agent_env (plain_text 3900 @ [10])) slash_task) = plain_text 3900"
    by (simp add: claude_output_agent_env plain_text_def strip_plain_newline markdown_to_slack_plain)
  have l: "length (plain_text 3900) = 3900"
    by (simp add: plain_text_def)
  have d: "delivered (process_task (agent_env (plain_text 3900 @ [10])) slash_task) =
      [ack_text slash_task, plain_text 3900]"
    unfolding delivered_process_task o using has_locator_slash_task l
    by (simp add: truncate_output_def)
  have "length (plain_text 3900) \<noteq> length (take 3900 (plain_text 3900 @ [10]) @ [10] @ py ''...(truncated)'')"
    using l by simp
  then have n: "plain_text 3900 \<noteq> take 3900 (plain_text 3900 @ [10]) @ [10] @ py ''...(truncated)''"
    by metis
  from l d n show ?thesis by simp
qed

section \<open>The dispatcher\<close>

lemma producer_calls_respond: "producer_calls (respond self channel txt url thread) = 0"
  by (simp add: respond_def producer_calls_def)

lemma producer_calls_dispatch_to_daemon:
  "producer_calls (dispatch_to_daemon self env txt user channel url thread) = 1"
  by (simp add: dispatch_to_daemon_def Let_def respond_def producer_calls_def)

text \<open>
  C2, as amended. Let the normalised text be the lower-cased text with the surrounding
  white space stripped, as \<open>dispatch\<close> computes it. If it is \<open>help\<close>, the producer
  \<open>github.write_file\<close> is not called; if it is none of the empty string, \<open>help\<close>,
  \<open>status\<close> and \<open>ping\<close>, the producer is called exactly once; for the empty string,
  \<open>status\<close> and \<open>ping\<close> it is not called.
\<close>

theorem dispatch_producer_calls:
  "(strip (str_lower L txt) = py ''help'' \<longrightarrow>
      producer_calls (dispatch L self env txt user channel url thread) = 0) \<and>
   (strip (str_lower L txt) \<notin> {[], py ''help'', py ''status'', py ''ping''} \<longrightarrow>
      producer_calls (dispatch L self env txt user channel url thread) = 1) \<and>
   (strip (str_lower L txt) \<in> {[], py ''status'', py ''ping''} \<longrightarrow>
      producer_calls (dispatch L self env txt user channel url thread) = 0)"
  by (auto simp: dispatch_def Let_def producer_calls_respond producer_calls_dispatch_to_daemon)

theorem dispatch_producer_calls_witness:
  "producer_calls (dispatch example_lib example_handler example_worker_env (py ''  HeLp '')
      (py ''U1'') (py ''C01'') [] []) = 0 \<and>
   producer_calls (dispatch example_lib example_handler example_worker_env (py ''list files'')
      (py ''U1'') (py ''C01'') [] []) = 1 \<and>
   producer_calls (dispatch example_lib example_handler example_worker_env (py ''Ping'')
      (py ''U1'') (py ''C01'') [] []) = 0"
proof -
  have 1: "strip (str_lower example_lib (py ''  HeLp '')) = py ''help''"
    by (simp add: example_lib_def ascii_lower_def strip_def isspace_def py_def)
  have 2: "strip (str_lower example_lib (py ''list files'')) \<notin> {[], py ''help'', py ''status'', py ''ping''}"
    by (simp add: example_lib_def ascii_lower_def strip_def isspace_def py_def)
  have 3: "strip (str_lower example_lib (py ''Ping'')) \<in> {[], py ''status'', py ''ping''}"
    by (simp add: example_lib_def ascii_lower_def strip_def isspace_def py_def)
  from 1 2 3 dispatch_producer_calls [of example_lib "py ''  HeLp ''" example_handler example_worker_env
      "py ''U1''" "py ''C01''" "[]" "[]"]
    dispatch_producer_calls [of example_lib "py ''list files''" example_handler example_worker_env
      "py ''U1''" "py ''C01''" "[]" "[]"]
    dispatch_producer_calls [of example_lib "py ''Ping''" example_handler example_worker_env
      "py ''U1''" "py ''C01''" "[]" "[]"]
  show ?thesis by blast
qed

text \<open>
  C2 as stated fails: the text \<open>status\<close> is not empty and is not \<open>help\<close>, and the producer
  is not called for it.
\<close>

theorem dispatch_status_counterexample:
  "\<not> (strip (py ''status'') \<noteq> [] \<and> strip (str_lower example_lib (py ''status'')) \<noteq> py ''help'' \<longrightarrow>
      producer_calls (dispatch example_lib example_handler example_worker_env (py ''status'')
        (py ''U1'') (py ''C01'') [] []) = 1)"
proof -
  have 1: "strip (py ''status'') = py ''status''"
    by (simp add: strip_def isspace_def py_def)
  have 2: "strip (str_lower example_lib (py ''status'')) = py ''status''"
    by (simp add: example_lib_def ascii_lower_def strip_def isspace_def py_def)
  have 3: "py ''status'' \<noteq> [] \<and> py ''status'' \<noteq> py ''help''"
    by (simp add: py_def)
  have "producer_calls (dispatch example_lib example_handler example_worker_env (py ''status'')
        (py ''U1'') (py ''C01'') [] []) = 0"
    using 2 3 by (simp add: dispatch_def Let_def producer_calls_respond)
  with 1 2 3 show ?thesis by simp
qed

section \<open>UTF-8\<close>

text \<open>Encoding inverts decoding: the bytes that decode to a string are its encoding.\<close>

lemma divmod64: "z < 64 \<Longrightarrow> (k * 64 + z) div 64 = k \<and> (k * 64 + z) mod 64 = (z::nat)"
  by simp

lemma encode_char_1: "b0 < 128 \<Longrightarrow> encode_char b0 = Some [b0]"
  by (simp add: encode_char_def)

lemma encode_char_2:
  assumes "194 \<le> b0" "b0 \<le> 223" "cont b1"
  shows "encode_char ((b0 - 192) * 64 + (b1 - 128)) = Some [b0, b1]"
proof -
  define x where "x = b0 - 192"
  define y where "y = b1 - 128"
  have b: "b0 = 192 + x" "b1 = 128 + y" "2 \<le> x" "x < 32" "y < 64"
    using assms by (auto simp: x_def y_def cont_def)
  have "(x * 64 + y) div 64 = x" "(x * 64 + y) mod 64 = y" using b by auto
  moreover have "128 \<le> x * 64 + y" "x * 64 + y < 2048" using b by auto
  ultimately show ?thesis
    unfolding x_def [symmetric] y_def [symmetric] by (simp add: encode_char_def b)
qed

lemma encode_char_3:
  assumes "224 \<le> b0" "b0 \<le> 239" "(if b0 = 224 then 160 else 128) \<le> b1"
    "b1 \<le> (if b0 = 237 then 159 else 191)" "cont b2"
  shows "encode_char ((b0 - 224) * 4096 + (b1 - 128) * 64 + (b2 - 128)) = Some [b0, b1, b2]"
proof -
  define x where "x = b0 - 224"
  define y where "y = b1 - 128"
  define z where "z = b2 - 128"
  have b: "b0 = 224 + x" "b1 = 128 + y" "b2 = 128 + z" "x < 16" "y < 64" "z < 64"
    "x = 0 \<longrightarrow> 32 \<le> y" "x = 13 \<longrightarrow> y < 32"
    using assms by (auto simp: x_def y_def z_def cont_def split: if_splits)
  let ?c = "x * 4096 + y * 64 + z"
  have eq: "?c = (x * 64 + y) * 64 + z" by simp
  have c64: "?c div 64 = x * 64 + y" "?c mod 64 = z"
    unfolding eq using divmod64 [OF b(6), of "x * 64 + y"] by blast+
  have "?c div 4096 = ?c div 64 div 64" by (simp add: div_mult2_eq [symmetric])
  with c64 have d: "?c div 4096 = x" "?c div 64 mod 64 = y" "?c mod 64 = z" using b(5) by simp_all
  have r: "2048 \<le> ?c" "?c < 65536" using b by auto
  have r': "\<not> (55296 \<le> ?c \<and> ?c \<le> 57343)"
  proof (cases "x = 13")
    case True
    with b have "?c < 55296" by simp
    then show ?thesis by simp
  next
    case False
    then have "x \<le> 12 \<or> 14 \<le> x" by arith
    then show ?thesis using b(5,6) by auto
  qed
  show ?thesis
    unfolding x_def [symmetric] y_def [symmetric] z_def [symmetric]
    using d r r' by (simp add: encode_char_def b(1-3))
qed

lemma encode_char_4:
  assumes "240 \<le> b0" "b0 \<le> 244" "(if b0 = 240 then 144 else 128) \<le> b1"
    "b1 \<le> (if b0 = 244 then 143 else 191)" "cont b2" "cont b3"
  shows "encode_char ((b0 - 240) * 262144 + (b1 - 128) * 4096 + (b2 - 128) * 64 + (b3 - 128)) =
           Some [b0, b1, b2, b3]"
proof -
  define x where "x = b0 - 240"
  define y where "y = b1 - 128"
  define z where "z = b2 - 128"
  define w where "w = b3 - 128"
  have b: "b0 = 240 + x" "b1 = 128 + y" "b2 = 128 + z" "b3 = 128 + w" "x < 5" "y < 64" "z < 64" "w < 64"
    "x = 0 \<longrightarrow> 16 \<le> y" "x = 4 \<longrightarrow> y < 16"
    using assms by (auto simp: x_def y_def z_def w_def cont_def split: if_splits)
  let ?c = "x * 262144 + y * 4096 + z * 64 + w"
  have eq: "?c = (x * 4096 + y * 64 + z) * 64 + w" by simp
  have c64: "?c div 64 = x * 4096 + y * 64 + z" "?c mod 64 = w"
    unfolding eq using divmod64 [OF b(8), of "x * 4096 + y * 64 + z"] by blast+
  have c4096: "?c div 4096 = ?c div 64 div 64" by (simp add: div_mult2_eq [symmetric])
  have eq': "x * 4096 + y * 64 + z = (x * 64 + y) * 64 + z" by simp
  have e: "(x * 4096 + y * 64 + z) div 64 = x * 64 + y" "(x * 4096 + y * 64 + z) mod 64 = z"
    unfolding eq' using divmod64 [OF b(7), of "x * 64 + y"] by blast+
  have c262144: "?c div 262144 = ?c div 4096 div 64" by (simp add: div_mult2_eq [symmetric])
  have d: "?c div 262144 = x" "?c div 4096 mod 64 = y" "?c div 64 mod 64 = z" "?c mod 64 = w"
    using c64 c4096 c262144 e b(6) by simp_all
  have r: "65536 \<le> ?c" "?c < 1114112" using b by auto
  show ?thesis
    unfolding x_def [symmetric] y_def [symmetric] z_def [symmetric] w_def [symmetric]
    using d r by (simp add: encode_char_def b)
qed

lemma utf8_roundtrip: "utf8_decode bs = Some s \<Longrightarrow> utf8_encode s = Some bs"
proof (induction bs arbitrary: s rule: utf8_decode.induct)
  case 1
  then show ?case by simp
next
  case (2 b0 bs)
  consider (a) "b0 < 128" | (b) "194 \<le> b0 \<and> b0 \<le> 223" | (c) "224 \<le> b0 \<and> b0 \<le> 239"
    | (d) "240 \<le> b0 \<and> b0 \<le> 244" | (e) "\<not> b0 < 128" "\<not> (194 \<le> b0 \<and> b0 \<le> 223)"
      "\<not> (224 \<le> b0 \<and> b0 \<le> 239)" "\<not> (240 \<le> b0 \<and> b0 \<le> 244)"
    by linarith
  then show ?case
  proof cases
    case a
    with "2.prems" obtain s' where s': "utf8_decode bs = Some s'" "s = b0 # s'" by auto
    from "2.IH"(1) [OF a s'(1)] show ?thesis
      by (simp add: s'(2) encode_char_1 [OF a])
  next
    case b
    with "2.prems" obtain b1 r s' where s': "bs = b1 # r" "cont b1" "utf8_decode r = Some s'"
        "s = ((b0 - 192) * 64 + (b1 - 128)) # s'"
      by (auto split: list.splits if_splits)
    have nb: "\<not> b0 < 128" using b by simp
    from "2.IH"(2) [OF nb b s'(1) s'(2) s'(3)] encode_char_2 [of b0 b1] b s'
    show ?thesis by simp
  next
    case c
    with "2.prems" obtain b1 b2 r s' where s': "bs = b1 # b2 # r"
        "(if b0 = 224 then 160 else 128) \<le> b1 \<and> b1 \<le> (if b0 = 237 then 159 else 191) \<and> cont b2"
        "utf8_decode r = Some s'"
        "s = ((b0 - 224) * 4096 + (b1 - 128) * 64 + (b2 - 128)) # s'"
      by (auto split: list.splits if_splits)
    have nb: "\<not> b0 < 128" "\<not> (194 \<le> b0 \<and> b0 \<le> 223)" using c by simp_all
    from s'(1) obtain l where l: "bs = b1 # l" "l = b2 # r" by simp
    from "2.IH"(3) [OF nb c l s'(2) s'(3)] encode_char_3 [of b0 b1 b2] c s'
    show ?thesis by simp
  next
    case d
    with "2.prems" obtain b1 b2 b3 r s' where s': "bs = b1 # b2 # b3 # r"
        "(if b0 = 240 then 144 else 128) \<le> b1 \<and> b1 \<le> (if b0 = 244 then 143 else 191) \<and> cont b2 \<and> cont b3"
        "utf8_decode r = Some s'"
        "s = ((b0 - 240) * 262144 + (b1 - 128) * 4096 + (b2 - 128) * 64 + (b3 - 128)) # s'"
      by (auto split: list.splits if_splits)
    have nb: "\<not> b0 < 128" "\<not> (194 \<le> b0 \<and> b0 \<le> 223)" "\<not> (224 \<le> b0 \<and> b0 \<le> 239)" using d by simp_all
    from s'(1) obtain l l' where l: "bs = b1 # l" "l = b2 # l'" "l' = b3 # r" by simp
    from "2.IH"(4) [OF nb d l s'(2) s'(3)] encode_char_4 [of b0 b1 b2 b3] d s'
    show ?thesis by simp
  next
    case e
    with "2.prems" show ?thesis by simp
  qed
qed

lemma utf8_encode_append:
  "utf8_encode a = Some x \<Longrightarrow> utf8_encode b = Some y \<Longrightarrow> utf8_encode (a @ b) = Some (x @ y)"
  by (induction a arbitrary: x) (auto split: option.splits)

lemma utf8_encode_ascii: "list_all (\<lambda>c. c < 128) s \<Longrightarrow> utf8_encode s = Some s"
  by (induction s) (simp_all add: encode_char_def)

lemma utf8_decode_ascii: "list_all (\<lambda>c. c < 128) s \<Longrightarrow> utf8_decode s = Some s"
  by (induction s) simp_all

section \<open>Signature verification\<close>

lemma hexdigit_ascii: "n < 16 \<Longrightarrow> hexdigit n < 128"
  by (simp add: hexdigit_def)

lemma hexdigest_ascii: "list_all (\<lambda>c. c < 128) (hexdigest ws)"
proof (induction ws)
  case Nil
  show ?case by (simp add: hexdigest_def)
next
  case (Cons w ws)
  have "unat w < 256"
    using unsigned_less [of w, where ?'a = nat] by simp
  then have "unat w div 16 < 16" by simp
  then have 1: "hexdigit (unat w div 16) < 128" by (rule hexdigit_ascii)
  have "unat w mod 16 < 16" by simp
  then have 2: "hexdigit (unat w mod 16) < 128" by (rule hexdigit_ascii)
  from Cons 1 2 show ?case by (simp add: hexdigest_def)
qed

lemma compare_digest_same:
  "list_all (\<lambda>c. c < 128) a \<Longrightarrow> compare_digest a a = Inr True"
  by (simp add: compare_digest_def)

lemma verify_rejects_stale:
  assumes "secret \<noteq> []" and "py_float L timestamp = Some x" and "far_from now x"
  shows "verify_slack_signature L secret now body timestamp signature = Inr False"
  using assms by (simp add: verify_slack_signature_def)

lemma verify_accepts_signed:
  assumes "secret \<noteq> []" and "py_float L timestamp = Some x" and "\<not> far_from now x"
    and "utf8_decode body \<noteq> None" and "slack_signature L secret timestamp body = Some signature"
  shows "verify_slack_signature L secret now body timestamp signature = Inr True"
proof -
  from assms(4) obtain b where b: "utf8_decode body = Some b" by auto
  from assms(5) obtain key head where k: "utf8_encode secret = Some key"
    and h: "utf8_encode (py ''v0:'' @ timestamp @ py '':'') = Some head"
    and s: "signature = py ''v0='' @ hexdigest (hmac_sha256 L key (head @ body))"
    by (auto simp: slack_signature_def split: option.splits)
  have "utf8_encode ((py ''v0:'' @ timestamp @ py '':'') @ b) = Some (head @ body)"
    using utf8_encode_append [OF h utf8_roundtrip [OF b]] .
  then have m: "utf8_encode (py ''v0:'' @ timestamp @ py '':'' @ b) = Some (head @ body)"
    by simp
  have "list_all (\<lambda>c. c < 128) signature"
    unfolding s using hexdigest_ascii by (simp add: py_def)
  then have "compare_digest signature signature = Inr True"
    by (rule compare_digest_same)
  then show ?thesis
    using assms(1-3) b k m s by (simp add: verify_slack_signature_def)
qed

lemma hexdigest_zeros: "hexdigest (replicate n 0) = replicate (2 * n) 48"
  by (induction n) (simp_all add: hexdigest_def hexdigit_def)

lemma example_float: "py_float example_lib example_timestamp = Some (FloatNum example_now)"
  by (simp add: example_lib_def example_timestamp_def example_now_def decimal_def py_def)

lemma example_fresh: "\<not> far_from example_now (FloatNum example_now)"
  by (simp add: far_from_def)

lemma example_slack_signature_bytes:
  "slack_signature example_lib example_secret example_timestamp body = Some example_signature"
proof -
  have 1: "utf8_encode example_secret = Some example_secret"
    by (rule utf8_encode_ascii) (simp add: example_secret_def py_def)
  have 2: "utf8_encode (py ''v0:'' @ example_timestamp @ py '':'') = Some (py ''v0:'' @ example_timestamp @ py '':'')"
    by (rule utf8_encode_ascii) (simp add: example_timestamp_def py_def)
  show ?thesis
    using hexdigest_zeros [of 32]
    by (simp add: slack_signature_def 1 2 example_lib_def example_signature_def)
qed

lemma example_slack_signature:
  "list_all (\<lambda>c. c < 128) body \<Longrightarrow>
   slack_signature example_lib example_secret example_timestamp body = Some example_signature"
  by (rule example_slack_signature_bytes)

lemma bot_event_body_ascii: "list_all (\<lambda>c. c < 128) bot_event_body"
  by (simp add: bot_event_body_def quoted_def py_def)

text \<open>
  C4 at a body that is not UTF-8. The secret is set, the timestamp is the current time and
  the signature is the one computed over the timestamp and the raw body under the secret,
  so the request is one that C4 says is accepted. \<open>verify_slack_signature\<close> raises
  \<open>UnicodeDecodeError\<close> instead: \<open>body.decode\<close> is outside any \<open>try\<close>. For the same request
  with a timestamp that \<open>float\<close> does not read, two lines above in the source, the
  exception is caught and the function returns \<open>False\<close>.
\<close>

theorem verify_non_utf8_body_raises:
  "example_secret \<noteq> [] \<and>
   py_float example_lib example_timestamp = Some (FloatNum example_now) \<and>
   \<not> far_from example_now (FloatNum example_now) \<and>
   slack_signature example_lib example_secret example_timestamp [255] = Some example_signature \<and>
   verify_slack_signature example_lib example_secret example_now [255] example_timestamp
     example_signature = Inl UnicodeDecodeError \<and>
   verify_slack_signature example_lib example_secret example_now [255] (py ''soon'')
     example_signature = Inr False"
proof -
  have s: "example_secret \<noteq> []" by (simp add: example_secret_def py_def)
  have r: "verify_slack_signature example_lib example_secret example_now [255] example_timestamp
         example_signature = Inl UnicodeDecodeError"
    using s example_float example_fresh by (simp add: verify_slack_signature_def)
  have f: "py_float example_lib (py ''soon'') = None"
    by (simp add: example_lib_def decimal_def py_def)
  have n: "verify_slack_signature example_lib example_secret example_now [255] (py ''soon'')
         example_signature = Inr False"
    using s f by (simp add: verify_slack_signature_def)
  from s example_float example_fresh example_slack_signature_bytes [of "[255]"] r n
  show ?thesis by simp
qed

lemma handle_slash_command_not_401: "fst (handle_slash_command p) \<noteq> Inr InvalidSignature"
  by (simp add: handle_slash_command_def Let_def split: json.split)

lemma events_api_not_401: "fst (events_api p) \<noteq> Inr InvalidSignature"
  by (simp add: events_api_def split: json.split option.split)

text \<open>
  C9. With the empty signing secret, \<open>verify_slack_signature\<close> returns \<open>True\<close> for every
  body, timestamp and signature, and the handler never answers with the 401 response.
\<close>

theorem unset_secret_accepts_all:
  "verify_slack_signature L [] now body timestamp signature = Inr True \<and>
   fst (slack_events L [] now req) \<noteq> Inr InvalidSignature"
proof
  show v: "verify_slack_signature L [] now body timestamp signature = Inr True"
    by (simp add: verify_slack_signature_def)
  have "verify_slack_signature L [] now (req_body req) (req_timestamp req) (req_signature req) = Inr True"
    by (simp add: verify_slack_signature_def)
  then show "fst (slack_events L [] now req) \<noteq> Inr InvalidSignature"
    by (simp add: slack_events_def handle_slash_command_not_401 events_api_not_401 split: option.split)
qed

section \<open>Bot messages\<close>

text \<open>
  C10. Let a request that is not form-encoded carry a JSON payload that is an event callback
  whose event has a truthy \<open>bot_id\<close> or the subtype \<open>bot_message\<close>. The handler answers
  this payload with \<open>{"ok": True}\<close> and starts no background work for it, so neither
  \<open>handle_event\<close> nor the dispatcher runs: whatever the signature check says, the request
  starts nothing, and when the check passes the answer is \<open>{"ok": True}\<close>.
\<close>

theorem bot_events_not_dispatched:
  assumes "dict_get payload ''type'' = Some (JStr (py ''event_callback''))"
    and "dict_get payload ''event'' = Some (JObj event)"
    and "truthy_opt (dict_get event ''bot_id'') \<or>
         dict_get event ''subtype'' = Some (JStr (py ''bot_message''))"
    and "\<not> sublist (py ''application/x-www-form-urlencoded'') (req_content_type req)"
    and "json_loads_bytes L (req_body req) = Some (JObj payload)"
  shows "events_api (JObj payload) = (Inr OkTrue, []) \<and>
         snd (slack_events L secret now req) = [] \<and>
         (verify_slack_signature L secret now (req_body req) (req_timestamp req) (req_signature req) =
            Inr True \<longrightarrow>
          slack_events L secret now req = (Inr OkTrue, []))"
proof -
  have "JStr (py ''event_callback'') \<noteq> JStr (py ''url_verification'')"
    by (simp add: py_def)
  with assms(1,2,3) have api: "events_api (JObj payload) = (Inr OkTrue, [])"
    by (auto simp: events_api_def)
  have none: "snd (slack_events L secret now req) = []"
  proof (cases "verify_slack_signature L secret now (req_body req) (req_timestamp req) (req_signature req)")
    case (Inl e)
    then show ?thesis by (simp add: slack_events_def)
  next
    case (Inr ok)
    with assms(4,5) api show ?thesis by (cases ok) (simp_all add: slack_events_def)
  qed
  have "slack_events L secret now req = (Inr OkTrue, [])"
    if "verify_slack_signature L secret now (req_body req) (req_timestamp req) (req_signature req) = Inr True"
    using that assms(4,5) api by (simp add: slack_events_def)
  with api none show ?thesis by simp
qed

text \<open>
  The request of a bot's message, signed and sent at the current time, is answered with
  \<open>{"ok": True}\<close> and starts nothing.
\<close>

theorem bot_events_not_dispatched_witness:
  "slack_events example_lib example_secret example_now bot_event_request = (Inr OkTrue, [])"
proof -
  have s: "example_secret \<noteq> []" by (simp add: example_secret_def py_def)
  have d: "utf8_decode bot_event_body \<noteq> None"
    using utf8_decode_ascii [OF bot_event_body_ascii] by simp
  have v: "verify_slack_signature example_lib example_secret example_now (req_body bot_event_request)
      (req_timestamp bot_event_request) (req_signature bot_event_request) = Inr True"
    using verify_accepts_signed [OF s example_float example_fresh d
        example_slack_signature [OF bot_event_body_ascii]]
    by (simp add: bot_event_request_def)
  have c: "\<not> sublist (py ''application/x-www-form-urlencoded'') (req_content_type bot_event_request)"
    by (simp add: bot_event_request_def py_def sublist_code)
  have j: "json_loads_bytes example_lib (req_body bot_event_request) =
      Some (JObj [(py ''type'', JStr (py ''event_callback'')),
           (py ''event'', JObj [(py ''bot_id'', JStr (py ''B01'')), (py ''text'', JStr (py ''hi''))])])"
    by (simp add: example_lib_def bot_event_request_def bot_event_payload_def)
  have t: "dict_get [(py ''type'', JStr (py ''event_callback'')),
           (py ''event'', JObj [(py ''bot_id'', JStr (py ''B01'')), (py ''text'', JStr (py ''hi''))])]
        ''type'' = Some (JStr (py ''event_callback''))"
    by (simp add: dict_get_def py_def)
  have e: "dict_get [(py ''type'', JStr (py ''event_callback'')),
           (py ''event'', JObj [(py ''bot_id'', JStr (py ''B01'')), (py ''text'', JStr (py ''hi''))])]
        ''event'' = Some (JObj [(py ''bot_id'', JStr (py ''B01'')), (py ''text'', JStr (py ''hi''))])"
    by (simp add: dict_get_def py_def)
  have b: "truthy_opt (dict_get [(py ''bot_id'', JStr (py ''B01'')), (py ''text'', JStr (py ''hi''))] ''bot_id'') \<or>
      dict_get [(py ''bot_id'', JStr (py ''B01'')), (py ''text'', JStr (py ''hi''))] ''subtype'' =
        Some (JStr (py ''bot_message''))"
    by (simp add: dict_get_def truthy_opt_def truthy_def py_def)
  from bot_events_not_dispatched [OF t e b c j, of example_secret example_now] v
  show ?thesis by simp
qed

section \<open>Malformed task files\<close>

lemma read_task_not_200: "status_code resp \<noteq> 200 \<Longrightarrow> read_task L resp path = Inr None"
  by (simp add: read_task_def)

lemma read_task_not_utf8:
  "status_code resp = 200 \<Longrightarrow> utf8_decode (data_content resp) = None \<Longrightarrow>
   read_task L resp path = Inl UnicodeDecodeError"
  by (simp add: read_task_def)

lemma read_task_malformed:
  "status_code resp = 200 \<Longrightarrow> utf8_decode (data_content resp) = Some content \<Longrightarrow>
   json_loads L content = None \<Longrightarrow> read_task L resp path = Inl JSONDecodeError"
  by (simp add: read_task_def)

lemma read_task_object:
  "status_code resp = 200 \<Longrightarrow> utf8_decode (data_content resp) = Some content \<Longrightarrow>
   json_loads L content = Some (JObj d) \<Longrightarrow>
   read_task L resp path =
     Inr (Some (dict_set (dict_set d (py ''_sha'') (JStr (data_sha resp))) (py ''_path'') (JStr path)))"
  by (simp add: read_task_def)

lemma broken_file_content: "utf8_decode (file_content broken_file) = Some (py ''{not json'')"
proof -
  have "list_all (\<lambda>c. c < 128) (py ''{not json'')" by (simp add: py_def)
  from utf8_decode_ascii [OF this] show ?thesis by (simp add: broken_file_def)
qed

text \<open>
  C7 at a task file that is not JSON. The store answers the read with status 200 and the
  content \<open>{not json\<close>; \<open>read_task\<close> raises \<open>JSONDecodeError\<close> and does not return an
  absent result: \<open>json.loads\<close> is outside any \<open>try\<close>. In the same function a read that the
  store answers with another status, here for a path that is not in the queue, returns
  the absent result.
\<close>

theorem read_task_malformed_raises:
  "status_code (github_get [broken_file] (py ''tasks/1a2b3c4d.json'')) = 200 \<and>
   read_task example_lib (github_get [broken_file] (py ''tasks/1a2b3c4d.json''))
     (py ''tasks/1a2b3c4d.json'') = Inl JSONDecodeError \<and>
   read_task example_lib (github_get [broken_file] (py ''tasks/none.json''))
     (py ''tasks/none.json'') = Inr None"
proof -
  have p: "file_path broken_file = py ''tasks/1a2b3c4d.json''"
    by (simp add: broken_file_def)
  have g: "github_get [broken_file] (py ''tasks/1a2b3c4d.json'') =
      \<lparr>status_code = 200, data_sha = file_sha broken_file, data_content = file_content broken_file\<rparr>"
    by (simp add: github_get_def p)
  have j: "json_loads example_lib (py ''{not json'') = None"
    by (simp add: example_lib_def py_def)
  have 1: "read_task example_lib (github_get [broken_file] (py ''tasks/1a2b3c4d.json''))
     (py ''tasks/1a2b3c4d.json'') = Inl JSONDecodeError"
    unfolding g by (rule read_task_malformed [OF _ _ j]) (simp_all add: broken_file_content)
  have "py ''tasks/none.json'' \<noteq> py ''tasks/1a2b3c4d.json''"
    by (simp add: py_def)
  then have "status_code (github_get [broken_file] (py ''tasks/none.json'')) \<noteq> 200"
    by (simp add: github_get_def p)
  then have 2: "read_task example_lib (github_get [broken_file] (py ''tasks/none.json''))
     (py ''tasks/none.json'') = Inr None"
    by (rule read_task_not_200)
  from g 1 2 show ?thesis by simp
qed

end
